theory Spec2Isabelle
  imports Main
begin

section \<open>Strings as the source uses them\<close>

text \<open>
  The program is \<^verbatim>\<open>src/index.js\<close>, the class \<^verbatim>\<open>AudioTranscriber\<close>. A JavaScript
  string is modelled as a \<^typ>\<open>string\<close>: one \<^typ>\<open>char\<close> per UTF-16 code unit, for the
  code units below 256. The helpers below are the built-in string operations the class
  calls, each written out for the arguments the class gives it.
\<close>

type_synonym path = string

text \<open>
  \<^verbatim>\<open>String.prototype.trim\<close> removes white space and line terminators from both ends.
  Among the code units below 256 these are TAB, LF, VT, FF, CR, SPACE and NBSP.
\<close>

definition isWhiteSpace :: "char \<Rightarrow> bool" where
  "isWhiteSpace c =
     (c = CHR 0x09 \<or> c = CHR 0x0A \<or> c = CHR 0x0B \<or> c = CHR 0x0C \<or> c = CHR 0x0D \<or>
      c = CHR 0x20 \<or> c = CHR 0xA0)"

definition trim :: "string \<Rightarrow> string" where
  "trim s = rev (dropWhile isWhiteSpace (rev (dropWhile isWhiteSpace s)))"

text \<open>The regular expression \<^verbatim>\<open>/^\d+$/\<close>: one or more of the digits 0 to 9 and nothing else.\<close>

definition isDigit :: "char \<Rightarrow> bool" where
  "isDigit c = (c \<in> set ''0123456789'')"

definition digitsOnly :: "string \<Rightarrow> bool" where
  "digitsOnly s = (s \<noteq> [] \<and> list_all isDigit s)"

fun startsWith :: "string \<Rightarrow> string \<Rightarrow> bool" where
  "startsWith s [] = True"
| "startsWith [] (p # ps) = False"
| "startsWith (c # cs) (p # ps) = (c = p \<and> startsWith cs ps)"

text \<open>\<^verbatim>\<open>s.includes(sep)\<close>: \<open>sep\<close> starts at some position of \<open>s\<close>.\<close>

fun includesStr :: "string \<Rightarrow> string \<Rightarrow> bool" where
  "includesStr [] sep = (sep = [])"
| "includesStr (c # cs) sep = (startsWith (c # cs) sep \<or> includesStr cs sep)"

text \<open>
  \<^verbatim>\<open>s.split(sep)[0]\<close> for a non-empty \<open>sep\<close>: what stands before the first occurrence
  of \<open>sep\<close>, all of \<open>s\<close> when there is none.
\<close>

fun splitFirst :: "string \<Rightarrow> string \<Rightarrow> string" where
  "splitFirst [] sep = []"
| "splitFirst (c # cs) sep = (if startsWith (c # cs) sep then [] else c # splitFirst cs sep)"

text \<open>
  \<^verbatim>\<open>s.split('\n')\<close>: the pieces between line feeds; the empty string gives one empty
  piece, and a final line feed gives a final empty piece.
\<close>

fun splitOn :: "char \<Rightarrow> string \<Rightarrow> string list" where
  "splitOn d [] = [[]]"
| "splitOn d (c # cs) =
     (if c = d then [] # splitOn d cs
      else (case splitOn d cs of [] \<Rightarrow> [[c]] | l # ls \<Rightarrow> (c # l) # ls))"

text \<open>\<^verbatim>\<open>xs.join(' ')\<close>.\<close>

fun joinWith :: "string \<Rightarrow> string list \<Rightarrow> string" where
  "joinWith sep [] = []"
| "joinWith sep [x] = x"
| "joinWith sep (x # y # ys) = x @ sep @ joinWith sep (y # ys)"

text \<open>A number in a template literal: its decimal digits, with a sign when negative.\<close>

fun natToString :: "nat \<Rightarrow> string" where
  "natToString n =
     (if n < 10 then [''0123456789'' ! n]
      else natToString (n div 10) @ [''0123456789'' ! (n mod 10)])"

declare natToString.simps [simp del]

definition intToString :: "int \<Rightarrow> string" where
  "intToString i = (if i < 0 then CHR ''-'' # natToString (nat (- i)) else natToString (nat i))"

text \<open>
  \<^verbatim>\<open>(size / 1024).toFixed(2)\<close> for a file size in bytes. A size below \<open>2 ^ 53\<close> is a
  double and so is its quotient by 1024 (a power of two), so what \<^verbatim>\<open>toFixed\<close> rounds is
  the exact quotient; \<^verbatim>\<open>toFixed\<close> takes the nearest number of hundredths and the larger
  one on a tie. The number of hundredths is therefore \<open>(100 * size + 512) div 1024\<close>.
\<close>

definition sizeKb :: "nat \<Rightarrow> string" where
  "sizeKb n =
     (let h = (100 * n + 512) div 1024
      in natToString (h div 100) @ ''.'' @ natToString (h mod 100 div 10) @ natToString (h mod 10))"

section \<open>The subtitle parser\<close>

definition rangeSeparator :: string where
  "rangeSeparator = '' --> ''"

text \<open>
  \<^verbatim>\<open>convertSrtToTimestampedText\<close> (lines 116 to 152). The loop over the lines keeps two
  variables, \<^verbatim>\<open>timestampedText\<close> and \<^verbatim>\<open>currentText\<close>; \<open>srtLine\<close> is one turn of the
  loop on the pair of them.
\<close>

definition srtLine :: "string \<times> string \<Rightarrow> string \<Rightarrow> string \<times> string" where
  "srtLine st raw =
     (let line = trim raw; timestampedText = fst st; currentText = snd st
      in if line = [] \<or> digitsOnly line then st
         else if includesStr line rangeSeparator then
           (let flushed = (if currentText \<noteq> [] then timestampedText @ currentText @ ''\<newline>\<newline>''
                           else timestampedText);
                startTime = splitFirst line rangeSeparator
            in (flushed @ ''['' @ startTime @ ''] '', []))
         else (timestampedText, currentText @ line @ '' ''))"

definition convertSrtToTimestampedText :: "string \<Rightarrow> string" where
  "convertSrtToTimestampedText srtContent =
     (let st = foldl srtLine ([], []) (splitOn CHR 0x0A srtContent);
          timestampedText = fst st; currentText = snd st
      in if currentText \<noteq> [] then timestampedText @ trim currentText else timestampedText)"

text \<open>
  The rendering without timestamps is written inline in \<^verbatim>\<open>transcribe\<close> (lines 359 to
  366): the lines that are not blank, not an index and do not hold the separator, joined
  with one space and trimmed.
\<close>

definition isTextLine :: "string \<Rightarrow> bool" where
  "isTextLine line =
     (trim line \<noteq> [] \<and> \<not> digitsOnly (trim line) \<and> \<not> includesStr line rangeSeparator)"

definition plainTextOfSrt :: "string \<Rightarrow> string" where
  "plainTextOfSrt srtContent =
     trim (joinWith '' '' (filter isTextLine (splitOn CHR 0x0A srtContent)))"

section \<open>The world outside the class\<close>

text \<open>
  The class reads and writes the file system, starts external processes, sends HTTPS
  requests and writes warnings to the console. The model threads a \<open>world\<close> through
  every operation: the files that exist, and the trace of the effects so far. A file is
  its size in bytes (\<^verbatim>\<open>statSync(p).size\<close>) and its content as
  \<^verbatim>\<open>readFileSync(p, 'utf8')\<close> returns it. Only regular files that can be read are
  modelled: \<^verbatim>\<open>existsSync\<close> holds for the paths of the map, and reading such a path
  succeeds.
\<close>

record file_node =
  st_size :: nat
  utf8 :: string

type_synonym filesystem = "path \<rightharpoonup> file_node"

text \<open>The option object of the probe's \<^verbatim>\<open>https.request\<close> (lines 82 to 88).\<close>

record request_options =
  hostname :: "string option"
  port :: string
  urlpath :: "string option"
  http_method :: string
  timeout :: nat

text \<open>
  The upload of \<^verbatim>\<open>transcribeWithWebAPI\<close>. The multipart body is not built in the
  model: the request is given by what the body and the headers are made of.
\<close>

record upload =
  up_hostname :: "string option"
  up_port :: string
  up_urlpath :: "string option"
  up_bearer :: "string option"
  up_file :: path
  up_format :: string

datatype event =
    Exec string
  | Remove path
  | Warn string
  | HttpsHead request_options
  | HttpsPost upload

record world =
  files :: filesystem
  events :: "event list"

text \<open>What \<^verbatim>\<open>url.parse\<close> returns, for the three fields the class reads.\<close>

record parsed_url =
  url_hostname :: "string option"
  url_port :: "string option"
  url_path :: "string option"

text \<open>
  How the probe's request ends: the response callback runs (with a status code), the
  \<^verbatim>\<open>error\<close> event fires, the \<^verbatim>\<open>timeout\<close> event fires, or \<^verbatim>\<open>https.request\<close>
  itself throws while the promise is being built.
\<close>

datatype head_outcome =
    Responded nat
  | SocketError string
  | TimedOut
  | RequestThrew string

text \<open>
  How the upload ends: the \<^verbatim>\<open>error\<close> event fires, the response ends (with its status
  code and body), or \<^verbatim>\<open>https.request\<close> itself throws while the promise is being built.
\<close>

datatype post_outcome =
    PostError string
  | PostResponse nat string
  | PostThrew string

text \<open>
  The collaborators, none of them reimplemented: the environment, Node's \<^verbatim>\<open>path\<close>
  functions, the external processes behind \<^verbatim>\<open>execAsync\<close> (the error message of a
  failed command, and the files after it), \<^verbatim>\<open>fs.remove\<close> (the error message when it
  fails), the clock (\<open>Date_now 0\<close> is the reading at the start of a call of
  \<^verbatim>\<open>transcribe\<close>, \<open>Date_now 1\<close> the one that names the converted file and \<open>Date_now 2\<close>
  the one at the end), the random choice of a filler paragraph, \<^verbatim>\<open>url.parse\<close> (the
  message when it throws), the two HTTPS exchanges, and \<^verbatim>\<open>JSON.parse\<close> followed by
  \<^verbatim>\<open>result.text || result\<close> (the message when either throws).
\<close>

record externals =
  env_HOME :: "string option"
  path_join :: "string \<Rightarrow> string \<Rightarrow> string"
  path_basename :: "string \<Rightarrow> string"
  path_basename_ext :: "string \<Rightarrow> string \<Rightarrow> string"
  path_extname :: "string \<Rightarrow> string"
  toLowerCase :: "string \<Rightarrow> string"
  execAsync :: "string \<Rightarrow> filesystem \<Rightarrow> string option \<times> filesystem"
  fs_remove :: "path \<Rightarrow> filesystem \<Rightarrow> string option"
  Date_now :: "nat \<Rightarrow> int"
  Math_random :: nat
  url_parse :: "string \<Rightarrow> string + parsed_url"
  https_head :: "request_options \<Rightarrow> head_outcome"
  https_post :: "upload \<Rightarrow> post_outcome"
  JSON_text :: "string \<Rightarrow> string + string"

section \<open>The class\<close>

text \<open>
  The fields the constructor sets (lines 9 to 22). \<^verbatim>\<open>null\<close> is \<open>None\<close>; a string
  counts as set when it is truthy, that is, not empty.
\<close>

record config =
  tmpDir :: string
  whisperModel :: string
  whisperPath :: "string option"
  cleanupTempFiles :: bool
  useWebAPI :: bool
  webAPIKey :: "string option"
  webAPIEndpoint :: string

definition truthy :: "string option \<Rightarrow> bool" where
  "truthy v = (case v of None \<Rightarrow> False | Some s \<Rightarrow> s \<noteq> [])"

definition existsSync :: "world \<Rightarrow> path \<Rightarrow> bool" where
  "existsSync w p = (files w p \<noteq> None)"

text \<open>\<^verbatim>\<open>execAsync(cmd)\<close>: the command is traced, the files are what the process leaves.\<close>

definition runCommand :: "externals \<Rightarrow> string \<Rightarrow> world \<Rightarrow> string option \<times> world" where
  "runCommand ex cmd w =
     (let r = execAsync ex cmd (files w)
      in (fst r, w\<lparr>files := snd r, events := events w @ [Exec cmd]\<rparr>))"

subsection \<open>Backend discovery\<close>

record whisper_check =
  available :: bool
  path :: "string option"
  error :: "string option"

text \<open>
  The message of the \<^verbatim>\<open>TypeError\<close> that \<^verbatim>\<open>path.join\<close> throws for an argument that is
  \<^verbatim>\<open>undefined\<close>.
\<close>

definition pathArgumentError :: string where
  "pathArgumentError =
     ''The '' @ [CHR 0x22] @ ''path'' @ [CHR 0x22] @
     '' argument must be of type string. Received undefined''"

text \<open>
  The list \<^verbatim>\<open>commonPaths\<close> (lines 39 to 45). Building it throws when the environment
  has no \<^verbatim>\<open>HOME\<close>.
\<close>

definition commonPaths :: "externals \<Rightarrow> string + path list" where
  "commonPaths ex =
     (case env_HOME ex of
        None \<Rightarrow> Inl pathArgumentError
      | Some h \<Rightarrow>
          Inr [''/Users/kasperjones/venvs/whisper310-py10/bin/whisper'',
               path_join ex h ''venvs/whisper310-py10/bin/whisper'',
               path_join ex h ''.virtualenvs/whisper/bin/whisper'',
               path_join ex h ''anaconda3/envs/whisper/bin/whisper'',
               path_join ex h ''miniconda3/envs/whisper/bin/whisper''])"

definition customPathFound :: "config \<Rightarrow> world \<Rightarrow> bool" where
  "customPathFound cfg w =
     (case whisperPath cfg of None \<Rightarrow> False | Some p \<Rightarrow> p \<noteq> [] \<and> existsSync w p)"

text \<open>\<^verbatim>\<open>checkWhisperAvailability\<close> (lines 28 to 65).\<close>

definition checkWhisperAvailability :: "config \<Rightarrow> externals \<Rightarrow> world \<Rightarrow> whisper_check \<times> world" where
  "checkWhisperAvailability cfg ex w =
     (if customPathFound cfg w
      then (\<lparr>available = True, path = whisperPath cfg, error = None\<rparr>, w)
      else
        (case commonPaths ex of
           Inl msg \<Rightarrow> (\<lparr>available = False, path = None, error = Some msg\<rparr>, w)
         | Inr paths \<Rightarrow>
             (case find (existsSync w) paths of
                Some venvPath \<Rightarrow> (\<lparr>available = True, path = Some venvPath, error = None\<rparr>, w)
              | None \<Rightarrow>
                  (case runCommand ex ''whisper --help'' w of
                     (None, w') \<Rightarrow> (\<lparr>available = True, path = Some ''whisper'', error = None\<rparr>, w')
                   | (Some msg, w') \<Rightarrow> (\<lparr>available = False, path = None, error = Some msg\<rparr>, w')))))"

subsection \<open>The remote probe\<close>

record web_check =
  web_available :: bool
  web_error :: "string option"

definition portOr443 :: "string option \<Rightarrow> string" where
  "portOr443 p = (if truthy p then (case p of Some s \<Rightarrow> s | None \<Rightarrow> ''443'') else ''443'')"

definition probeOptions :: "parsed_url \<Rightarrow> request_options" where
  "probeOptions parsedUrl =
     \<lparr>hostname = url_hostname parsedUrl, port = portOr443 (url_port parsedUrl),
      urlpath = url_path parsedUrl, http_method = ''HEAD'', timeout = 5000\<rparr>"

text \<open>
  \<^verbatim>\<open>checkWebAPIAvailability\<close> (lines 71 to 109). The result is \<open>Inr\<close> when the promise
  resolves and \<open>Inl\<close> when it rejects.
\<close>

definition checkWebAPIAvailability :: "config \<Rightarrow> externals \<Rightarrow> world \<Rightarrow> (string + web_check) \<times> world" where
  "checkWebAPIAvailability cfg ex w =
     (if \<not> truthy (webAPIKey cfg)
      then (Inr \<lparr>web_available = False, web_error = Some ''No API key provided''\<rparr>, w)
      else
        (case url_parse ex (webAPIEndpoint cfg) of
           Inl msg \<Rightarrow> (Inr \<lparr>web_available = False, web_error = Some msg\<rparr>, w)
         | Inr parsedUrl \<Rightarrow>
             (let options = probeOptions parsedUrl;
                  w' = w\<lparr>events := events w @ [HttpsHead options]\<rparr>
              in (case https_head ex options of
                    Responded status \<Rightarrow> (Inr \<lparr>web_available = True, web_error = None\<rparr>, w')
                  | SocketError msg \<Rightarrow> (Inr \<lparr>web_available = False, web_error = Some msg\<rparr>, w')
                  | TimedOut \<Rightarrow>
                      (Inr \<lparr>web_available = False, web_error = Some ''Connection timeout''\<rparr>, w')
                  | RequestThrew msg \<Rightarrow> (Inl msg, w')))))"

subsection \<open>The placeholder generator\<close>

definition mockTexts :: "string list" where
  "mockTexts =
     [''Hello, this is a mock transcription of the audio file. Since Whisper is not available, this is a placeholder text that simulates what a real transcription would look like.'',
      ''Welcome to this audio recording. This is a demonstration of the transcription service. The actual audio content would be converted to text here if Whisper was properly installed and configured.'',
      ''This is a sample transcription that shows how the output would appear. The text would contain the actual spoken words from your audio file, with proper punctuation and formatting.'',
      ''In a real transcription, you would see the actual words spoken in the audio file. This mock text is just for demonstration purposes when Whisper is not available on the system.'']"

text \<open>
  \<^verbatim>\<open>generateMockTranscription\<close> (lines 161 to 171). \<^verbatim>\<open>Math.random()\<close> lies in
  \<open>[0, 1)\<close>, so the index \<^verbatim>\<open>Math.floor(Math.random() * mockTexts.length)\<close> is below the
  length: the model takes the external number modulo the length.
\<close>

definition generateMockTranscription :: "externals \<Rightarrow> string \<Rightarrow> nat \<Rightarrow> string \<Rightarrow> string" where
  "generateMockTranscription ex filename sz mimetype =
     (let randomText = mockTexts ! (Math_random ex mod length mockTexts)
      in ''[MOCK TRANSCRIPTION] '' @ randomText @ ''\<newline>\<newline>File: '' @ filename @
         ''\<newline>Size: '' @ sizeKb sz @ '' KB\<newline>Type: '' @ mimetype)"

subsection \<open>The remote client\<close>

record options =
  includeTimestamps :: bool
  outputFormat :: "string option"

definition enoentMessage :: "path \<Rightarrow> string" where
  "enoentMessage p =
     ''ENOENT: no such file or directory, open '' @ [CHR 0x27] @ p @ [CHR 0x27]"

text \<open>
  \<^verbatim>\<open>transcribeWithWebAPI\<close> (lines 179 to 262). What throws before the promise is
  built (reading the file, parsing the endpoint) is caught and thrown again with the
  prefix of line 260; the promise's own rejections are returned as they are. \<open>Inl\<close> is a
  rejection with that message, \<open>Inr\<close> the field \<^verbatim>\<open>text\<close> of the resolved value.
\<close>

definition transcribeWithWebAPI ::
  "config \<Rightarrow> externals \<Rightarrow> path \<Rightarrow> options \<Rightarrow> world \<Rightarrow> (string + string) \<times> world" where
  "transcribeWithWebAPI cfg ex inputFilePath opts w =
     (case files w inputFilePath of
        None \<Rightarrow> (Inl (''Web API transcription failed: '' @ enoentMessage inputFilePath), w)
      | Some audio \<Rightarrow>
          (case url_parse ex (webAPIEndpoint cfg) of
             Inl msg \<Rightarrow> (Inl (''Web API transcription failed: '' @ msg), w)
           | Inr parsedUrl \<Rightarrow>
               (let request = \<lparr>up_hostname = url_hostname parsedUrl,
                                up_port = portOr443 (url_port parsedUrl),
                                up_urlpath = url_path parsedUrl,
                                up_bearer = webAPIKey cfg,
                                up_file = inputFilePath,
                                up_format = (if outputFormat opts = Some ''srt'' then ''srt''
                                             else ''json'' @ [CHR 0x0D, CHR 0x0A])\<rparr>;
                    w' = w\<lparr>events := events w @ [HttpsPost request]\<rparr>
                in (case https_post ex request of
                      PostError msg \<Rightarrow> (Inl (''API request error: '' @ msg), w')
                    | PostThrew msg \<Rightarrow> (Inl msg, w')
                    | PostResponse statusCode data \<Rightarrow>
                        (if statusCode = 200 then
                           (case JSON_text ex data of
                              Inl msg \<Rightarrow> (Inl (''Failed to parse API response: '' @ msg), w')
                            | Inr t \<Rightarrow> (Inr t, w'))
                         else (Inl (''API request failed: '' @ natToString statusCode @ '' - '' @ data),
                               w'))))))"

subsection \<open>Cleanup of temporary files\<close>

text \<open>
  \<^verbatim>\<open>cleanupFiles\<close> (lines 268 to 280). A call of \<^verbatim>\<open>fs.remove\<close> is traced; when it
  succeeds the path is gone, when it throws the files stay and the warning is written.
\<close>

definition cleanupWarning :: "path \<Rightarrow> string \<Rightarrow> string" where
  "cleanupWarning f msg = ''Failed to cleanup file '' @ f @ '': '' @ msg"

fun cleanupLoop :: "externals \<Rightarrow> path list \<Rightarrow> world \<Rightarrow> world" where
  "cleanupLoop ex [] w = w"
| "cleanupLoop ex (f # rest) w =
     (if existsSync w f then
        (case fs_remove ex f (files w) of
           None \<Rightarrow>
             cleanupLoop ex rest (w\<lparr>files := (files w)(f := None), events := events w @ [Remove f]\<rparr>)
         | Some msg \<Rightarrow>
             cleanupLoop ex rest (w\<lparr>events := events w @ [Remove f, Warn (cleanupWarning f msg)]\<rparr>))
      else cleanupLoop ex rest w)"

definition cleanupFiles :: "config \<Rightarrow> externals \<Rightarrow> path list \<Rightarrow> world \<Rightarrow> world" where
  "cleanupFiles cfg ex fs w = (if \<not> cleanupTempFiles cfg then w else cleanupLoop ex fs w)"

subsection \<open>The orchestrator\<close>

record file_info =
  filename :: string
  size_field :: nat
  content_type :: string
  size_kb :: string
  processing_time_ms :: int
  include_timestamps :: bool
  output_format :: string
  model :: string
  method_field :: string
  whisper_path :: "string option"

record transcription =
  text_field :: string
  file_info :: file_info

definition mimeTypes :: "(string \<times> string) list" where
  "mimeTypes =
     [(''.mp3'', ''audio/mpeg''), (''.wav'', ''audio/wav''), (''.m4a'', ''audio/mp4''),
      (''.webm'', ''audio/webm''), (''.mp4'', ''video/mp4''), (''.ogg'', ''audio/ogg''),
      (''.flac'', ''audio/flac''), (''.aac'', ''audio/aac'')]"

definition contentTypeOf :: "string \<Rightarrow> string" where
  "contentTypeOf fileExt =
     (case map_of mimeTypes fileExt of Some t \<Rightarrow> t | None \<Rightarrow> ''audio/unknown'')"

text \<open>A value in a template literal: \<^verbatim>\<open>null\<close> and \<^verbatim>\<open>undefined\<close> print as their names.\<close>

definition quoted :: "string \<Rightarrow> string" where
  "quoted s = [CHR 0x22] @ s @ [CHR 0x22]"

definition orNull :: "string option \<Rightarrow> string" where
  "orNull v = (case v of Some s \<Rightarrow> s | None \<Rightarrow> ''null'')"

definition orUndefined :: "string option \<Rightarrow> string" where
  "orUndefined v = (case v of Some s \<Rightarrow> s | None \<Rightarrow> ''undefined'')"

definition ffmpegCmd :: "path \<Rightarrow> path \<Rightarrow> string" where
  "ffmpegCmd inputFilePath wavFile =
     ''ffmpeg -i '' @ quoted inputFilePath @ '' -acodec pcm_s16le -ar 16000 -ac 1 '' @
     quoted wavFile @ '' -y''"

definition whisperCmd :: "config \<Rightarrow> string option \<Rightarrow> path \<Rightarrow> string" where
  "whisperCmd cfg whisperPath' audioFile =
     quoted (orNull whisperPath') @ '' '' @ quoted audioFile @ '' --model '' @ whisperModel cfg @
     '' --output_format srt --output_dir '' @ quoted (tmpDir cfg)"

definition srtFileOf :: "config \<Rightarrow> externals \<Rightarrow> path \<Rightarrow> path" where
  "srtFileOf cfg ex audioFile =
     path_join ex (tmpDir cfg) (path_basename_ext ex audioFile ''.wav'' @ ''.srt'')"

definition wavFileOf :: "config \<Rightarrow> externals \<Rightarrow> path" where
  "wavFileOf cfg ex = path_join ex (tmpDir cfg) (intToString (Date_now ex 1) @ ''_converted.wav'')"

text \<open>
  The \<^verbatim>\<open>try\<close> block of lines 348 to 375, without its \<^verbatim>\<open>finally\<close>: the outcome (the
  message thrown at line 375, or the text), the list \<^verbatim>\<open>tempFiles\<close> as the
  \<^verbatim>\<open>finally\<close> block finds it, and the world.
\<close>

definition whisperAttempt ::
  "config \<Rightarrow> externals \<Rightarrow> options \<Rightarrow> string option \<Rightarrow> path \<Rightarrow> path list \<Rightarrow> world
     \<Rightarrow> (string + string) \<times> path list \<times> world" where
  "whisperAttempt cfg ex opts whisperPath' audioFile tempFiles w =
     (case runCommand ex (whisperCmd cfg whisperPath' audioFile) w of
        (Some msg, w') \<Rightarrow> (Inl (''Whisper transcription failed: '' @ msg), tempFiles, w')
      | (None, w') \<Rightarrow>
          (let srtFile = srtFileOf cfg ex audioFile
           in (case files w' srtFile of
                 Some f \<Rightarrow>
                   (Inr (if includeTimestamps opts then convertSrtToTimestampedText (utf8 f)
                         else plainTextOfSrt (utf8 f)),
                    tempFiles @ [srtFile], w')
               | None \<Rightarrow>
                   (Inl (''Whisper transcription failed: '' @ ''Whisper did not generate SRT output''),
                    tempFiles, w'))))"

text \<open>
  The local branch up to the \<^verbatim>\<open>finally\<close> block (lines 328 to 375). A failed
  conversion throws at line 341, before the \<^verbatim>\<open>try\<close> block is entered.
\<close>

datatype attempt =
    ConversionFailed string world
  | Attempted "string + string" "path list" world

definition localAttempt ::
  "config \<Rightarrow> externals \<Rightarrow> options \<Rightarrow> path \<Rightarrow> string \<Rightarrow> string option \<Rightarrow> world \<Rightarrow> attempt" where
  "localAttempt cfg ex opts inputFilePath fileExt whisperPath' w =
     (if fileExt \<noteq> ''.wav'' then
        (let wavFile = wavFileOf cfg ex
         in (case runCommand ex (ffmpegCmd inputFilePath wavFile) w of
               (Some msg, w') \<Rightarrow> ConversionFailed (''FFmpeg conversion failed: '' @ msg) w'
             | (None, w') \<Rightarrow>
                 (case whisperAttempt cfg ex opts whisperPath' wavFile [wavFile] w' of
                    (r, tempFiles, w'') \<Rightarrow> Attempted r tempFiles w'')))
      else
        (case whisperAttempt cfg ex opts whisperPath' inputFilePath [] w of
           (r, tempFiles, w'') \<Rightarrow> Attempted r tempFiles w''))"

definition fileSizeOf :: "world \<Rightarrow> path \<Rightarrow> nat" where
  "fileSizeOf w p = (case files w p of Some f \<Rightarrow> st_size f | None \<Rightarrow> 0)"

definition fileExtOf :: "externals \<Rightarrow> path \<Rightarrow> string" where
  "fileExtOf ex inputFilePath = toLowerCase ex (path_extname ex inputFilePath)"

text \<open>The object returned at lines 406 to 420.\<close>

definition buildResult ::
  "config \<Rightarrow> externals \<Rightarrow> options \<Rightarrow> path \<Rightarrow> nat \<Rightarrow> string \<Rightarrow> string \<Rightarrow> string option
     \<Rightarrow> transcription" where
  "buildResult cfg ex opts inputFilePath fileSize transcriptionText method' whisperPath' =
     \<lparr>text_field = transcriptionText,
      file_info =
        \<lparr>filename = path_basename ex inputFilePath,
         size_field = fileSize,
         content_type = contentTypeOf (fileExtOf ex inputFilePath),
         size_kb = sizeKb fileSize,
         processing_time_ms = Date_now ex 2 - Date_now ex 0,
         include_timestamps = includeTimestamps opts,
         output_format = (if truthy (outputFormat opts) then orNull (outputFormat opts) else ''txt''),
         model = whisperModel cfg,
         method_field = method',
         whisper_path = whisperPath'\<rparr>\<rparr>"

definition mockFor :: "externals \<Rightarrow> world \<Rightarrow> path \<Rightarrow> string" where
  "mockFor ex w inputFilePath =
     generateMockTranscription ex (path_basename ex inputFilePath) (fileSizeOf w inputFilePath)
       (contentTypeOf (fileExtOf ex inputFilePath))"

text \<open>
  The \<^verbatim>\<open>try\<close> block of \<^verbatim>\<open>transcribe\<close> (lines 291 to 420): \<open>Inl\<close> is the message of
  what it throws. The variable \<^verbatim>\<open>method\<close> is \<^verbatim>\<open>'mock'\<close> at line 320, set to
  \<^verbatim>\<open>'whisper'\<close> at line 325 and to \<^verbatim>\<open>'web-api'\<close> at line 386, before the client is
  called, and not set again.
\<close>

definition transcribeBody ::
  "config \<Rightarrow> externals \<Rightarrow> path \<Rightarrow> options \<Rightarrow> world \<Rightarrow> (string + transcription) \<times> world" where
  "transcribeBody cfg ex inputFilePath opts w =
     (if \<not> existsSync w inputFilePath
      then (Inl (''Input file not found: '' @ inputFilePath), w)
      else
        (let fileSize = fileSizeOf w inputFilePath;
             mock = mockFor ex w inputFilePath;
             result = buildResult cfg ex opts inputFilePath fileSize
         in (case checkWhisperAvailability cfg ex w of
               (whisperCheck, w1) \<Rightarrow>
                 if available whisperCheck then
                   (case localAttempt cfg ex opts inputFilePath (fileExtOf ex inputFilePath)
                           (path whisperCheck) w1 of
                      ConversionFailed msg w2 \<Rightarrow> (Inl msg, w2)
                    | Attempted r tempFiles w2 \<Rightarrow>
                        (let w3 = cleanupFiles cfg ex tempFiles w2
                         in (case r of
                               Inl msg \<Rightarrow> (Inl msg, w3)
                             | Inr t \<Rightarrow> (Inr (result t ''whisper'' (path whisperCheck)), w3))))
                 else if useWebAPI cfg \<and> truthy (webAPIKey cfg) then
                   (case checkWebAPIAvailability cfg ex w1 of
                      (Inl msg, w2) \<Rightarrow> (Inl msg, w2)
                    | (Inr webAPICheck, w2) \<Rightarrow>
                        if web_available webAPICheck then
                          (case transcribeWithWebAPI cfg ex inputFilePath opts w2 of
                             (Inr t, w3) \<Rightarrow> (Inr (result t ''web-api'' None), w3)
                           | (Inl msg, w3) \<Rightarrow>
                               (Inr (result mock ''web-api'' None),
                                w3\<lparr>events := events w3 @
                                     [Warn (''Web API failed, falling back to mock: '' @ msg)]\<rparr>))
                        else
                          (Inr (result mock ''mock'' None),
                           w2\<lparr>events := events w2 @
                                [Warn (''Web API not available: '' @
                                       orUndefined (web_error webAPICheck))]\<rparr>))
                 else (Inr (result mock ''mock'' None), w1))))"

text \<open>\<^verbatim>\<open>transcribe\<close> (lines 288 to 425): the \<^verbatim>\<open>catch\<close> of line 422 wraps every message.\<close>

definition transcribe ::
  "config \<Rightarrow> externals \<Rightarrow> path \<Rightarrow> options \<Rightarrow> world \<Rightarrow> (string + transcription) \<times> world" where
  "transcribe cfg ex inputFilePath opts w =
     (case transcribeBody cfg ex inputFilePath opts w of
        (Inl msg, w') \<Rightarrow> (Inl (''Transcription failed: '' @ msg), w')
      | (Inr r, w') \<Rightarrow> (Inr r, w'))"

section \<open>Inputs and observations the statements use\<close>


definition sampleSrt :: string where
  "sampleSrt = ''1\<newline>00:00:00,000 --> 00:00:03,500\<newline>Hello, this is a test transcription.\<newline>\<newline>2\<newline>00:00:03,500 --> 00:00:07,200\<newline>It contains multiple segments with timestamps.\<newline>\<newline>3\<newline>00:00:07,200 --> 00:00:10,000\<newline>This is the final segment.''"


definition rangeLine :: "string \<Rightarrow> bool" where
  "rangeLine r = (CHR 0x0A \<notin> set r \<and> includesStr (trim r) rangeSeparator)"

definition skippedLine :: "string \<Rightarrow> bool" where
  "skippedLine l = (CHR 0x0A \<notin> set l \<and> (trim l = [] \<or> digitsOnly (trim l)))"

text \<open>
  A subtitle text by blocks, for the rendering with timestamps. A body line is a line
  that is not a range line for that rendering (it does not hold the separator once
  trimmed): a text line or a skipped line. A block is a range line and the body lines
  that follow it; \<open>linesOfBlocks\<close> are the lines of a list of blocks in order.
\<close>

definition bodyLine :: "string \<Rightarrow> bool" where
  "bodyLine l = (CHR 0x0A \<notin> set l \<and> \<not> includesStr (trim l) rangeSeparator)"

definition linesOfBlocks :: "(string \<times> string list) list \<Rightarrow> string list" where
  "linesOfBlocks bs = concat (map (\<lambda>b. fst b # snd b) bs)"

text \<open>
  The rendering of a list of blocks in closed form, to be compared with the loop of
  \<^verbatim>\<open>convertSrtToTimestampedText\<close>. A block's marker is \<open>[start] \<close>; its text is its
  text lines, each trimmed and followed by one space. A block that is not the last is
  its marker, then its text followed by a blank line if it has text, and nothing if it
  has none. The last block is its marker and its text, trimmed. Text before the first
  range line is rendered like the text of a block without a marker.
\<close>

definition markerOf :: "string \<Rightarrow> string" where
  "markerOf r = ''['' @ splitFirst (trim r) rangeSeparator @ ''] ''"

definition blockText :: "string list \<Rightarrow> string" where
  "blockText body =
     concat (map (\<lambda>l. trim l @ '' '') (filter (\<lambda>l. trim l \<noteq> [] \<and> \<not> digitsOnly (trim l)) body))"

definition flushText :: "string \<Rightarrow> string" where
  "flushText t = (if t = [] then [] else t @ ''\<newline>\<newline>'')"

fun renderBlocks :: "(string \<times> string list) list \<Rightarrow> string" where
  "renderBlocks [] = []"
| "renderBlocks [b] = markerOf (fst b) @ trim (blockText (snd b))"
| "renderBlocks (b # c # bs) =
     markerOf (fst b) @ flushText (blockText (snd b)) @ renderBlocks (c # bs)"

definition renderSubtitles :: "string list \<Rightarrow> (string \<times> string list) list \<Rightarrow> string" where
  "renderSubtitles pre bs =
     (if bs = [] then trim (blockText pre) else flushText (blockText pre) @ renderBlocks bs)"

text \<open>
  Observations of a call of \<open>transcribe\<close>: the events of a kind, the events a call adds
  to the trace, the two external runs of the local branch (the conversion, which is
  skipped for a \<^verbatim>\<open>.wav\<close> input, and the recogniser), and the list \<^verbatim>\<open>tempFiles\<close> as the
  \<^verbatim>\<open>finally\<close> block of line 376 receives it.
\<close>

definition isNetwork :: "event \<Rightarrow> bool" where
  "isNetwork e = (case e of HttpsHead _ \<Rightarrow> True | HttpsPost _ \<Rightarrow> True | _ \<Rightarrow> False)"


definition newEvents :: "world \<Rightarrow> world \<Rightarrow> event list" where
  "newEvents w w' = drop (length (events w)) (events w')"

definition audioFileOf :: "config \<Rightarrow> externals \<Rightarrow> path \<Rightarrow> path" where
  "audioFileOf cfg ex inputFilePath =
     (if fileExtOf ex inputFilePath \<noteq> ''.wav'' then wavFileOf cfg ex else inputFilePath)"

definition conversionRun :: "config \<Rightarrow> externals \<Rightarrow> path \<Rightarrow> world \<Rightarrow> string option \<times> world" where
  "conversionRun cfg ex inputFilePath w =
     (if fileExtOf ex inputFilePath \<noteq> ''.wav''
      then runCommand ex (ffmpegCmd inputFilePath (wavFileOf cfg ex)) (snd (checkWhisperAvailability cfg ex w))
      else (None, snd (checkWhisperAvailability cfg ex w)))"

definition whisperRun :: "config \<Rightarrow> externals \<Rightarrow> path \<Rightarrow> world \<Rightarrow> string option \<times> world" where
  "whisperRun cfg ex inputFilePath w =
     runCommand ex
       (whisperCmd cfg (path (fst (checkWhisperAvailability cfg ex w))) (audioFileOf cfg ex inputFilePath))
       (snd (conversionRun cfg ex inputFilePath w))"


text \<open>
  \<open>extendsBy P w w'\<close>: the trace of \<open>w'\<close> is the trace of \<open>w\<close> followed by events that
  all satisfy \<open>P\<close>.
\<close>

definition isExec :: "event \<Rightarrow> bool" where
  "isExec e = (case e of Exec _ \<Rightarrow> True | _ \<Rightarrow> False)"

definition isCleanup :: "event \<Rightarrow> bool" where
  "isCleanup e = (case e of Remove _ \<Rightarrow> True | Warn _ \<Rightarrow> True | _ \<Rightarrow> False)"

definition extendsBy :: "(event \<Rightarrow> bool) \<Rightarrow> world \<Rightarrow> world \<Rightarrow> bool" where
  "extendsBy P w w' = (\<exists>xs. events w' = events w @ xs \<and> list_all P xs)"

section \<open>An example environment\<close>

text \<open>
  Concrete collaborators for the examples: simple stand-ins for Node's \<^verbatim>\<open>path\<close>
  functions on the paths of the examples, a machine on which every command fails and whose
  remote endpoint answers the probe and refuses the upload, and three variants of the
  external processes.
\<close>

definition demoBasename :: "string \<Rightarrow> string" where
  "demoBasename p = rev (takeWhile (\<lambda>c. c \<noteq> CHR ''/'') (rev p))"

definition demoExtname :: "string \<Rightarrow> string" where
  "demoExtname p =
     (let b = demoBasename p
      in if CHR ''.'' \<in> set b then CHR ''.'' # rev (takeWhile (\<lambda>c. c \<noteq> CHR ''.'') (rev b)) else [])"

definition demoBasenameExt :: "string \<Rightarrow> string \<Rightarrow> string" where
  "demoBasenameExt p ext =
     (let b = demoBasename p; n = length b - length ext
      in if length ext < length b \<and> drop n b = ext then take n b else b)"

definition demoExternals :: externals where
  "demoExternals =
     \<lparr>env_HOME = Some ''/home/ada'',
      path_join = (\<lambda>a b. a @ ''/'' @ b),
      path_basename = demoBasename,
      path_basename_ext = demoBasenameExt,
      path_extname = demoExtname,
      toLowerCase = (\<lambda>s. s),
      execAsync = (\<lambda>cmd fs. (Some (''Command failed: '' @ cmd), fs)),
      fs_remove = (\<lambda>p fs. None),
      Date_now = (\<lambda>k. 1700000000000 + 250 * int k),
      Math_random = 2,
      url_parse = (\<lambda>u. Inr \<lparr>url_hostname = Some ''api.openai.com'', url_port = None,
                             url_path = Some ''/v1/audio/transcriptions''\<rparr>),
      https_head = (\<lambda>rq. Responded 405),
      https_post = (\<lambda>up. PostError ''connect ECONNREFUSED''),
      JSON_text = (\<lambda>d. Inr d)\<rparr>"

definition demoConfig :: config where
  "demoConfig =
     \<lparr>tmpDir = ''/tmp/at'', whisperModel = ''medium'', whisperPath = None,
      cleanupTempFiles = True, useWebAPI = False, webAPIKey = None,
      webAPIEndpoint = ''https://api.openai.com/v1/audio/transcriptions''\<rparr>"

definition demoOptions :: options where
  "demoOptions = \<lparr>includeTimestamps = True, outputFormat = None\<rparr>"

definition demoWorld :: world where
  "demoWorld =
     \<lparr>files = [''/in/talk.mp3'' \<mapsto> \<lparr>st_size = 2048, utf8 = ''ID3''\<rparr>,
               ''/opt/whisper'' \<mapsto> \<lparr>st_size = 512, utf8 = ''#!''\<rparr>],
      events = []\<rparr>"

definition demoWav :: path where
  "demoWav = ''/tmp/at/1700000000250_converted.wav''"

definition demoSrt :: path where
  "demoSrt = ''/tmp/at/1700000000250_converted.srt''"

text \<open>
  External processes: with \<open>demoProcesses\<close> the converter writes the waveform and the
  recogniser writes the subtitle file of the test suite; with \<open>demoConverterOnly\<close> the
  recogniser fails; with \<open>demoSilent\<close> it exits normally and writes nothing.
\<close>

definition demoProcesses :: "string \<Rightarrow> filesystem \<Rightarrow> string option \<times> filesystem" where
  "demoProcesses cmd fs =
     (if startsWith cmd ''ffmpeg '' then (None, fs(demoWav \<mapsto> \<lparr>st_size = 320044, utf8 = ''RIFF''\<rparr>))
      else (None, fs(demoSrt \<mapsto> \<lparr>st_size = 193, utf8 = sampleSrt\<rparr>)))"

definition demoConverterOnly :: "string \<Rightarrow> filesystem \<Rightarrow> string option \<times> filesystem" where
  "demoConverterOnly cmd fs =
     (if startsWith cmd ''ffmpeg '' then (None, fs(demoWav \<mapsto> \<lparr>st_size = 320044, utf8 = ''RIFF''\<rparr>))
      else (Some ''Command failed: out of memory'', fs))"

definition demoSilent :: "string \<Rightarrow> filesystem \<Rightarrow> string option \<times> filesystem" where
  "demoSilent cmd fs =
     (if startsWith cmd ''ffmpeg '' then (None, fs(demoWav \<mapsto> \<lparr>st_size = 320044, utf8 = ''RIFF''\<rparr>))
      else (None, fs))"

text \<open>
  Configurations and collaborators of the examples: the executable is configured and
  exists; the remote mode is on with a key; deleting the waveform fails; no \<^verbatim>\<open>HOME\<close> and
  a \<^verbatim>\<open>whisper\<close> command that would run.
\<close>

definition demoLocalConfig :: config where
  "demoLocalConfig = demoConfig\<lparr>whisperPath := Some ''/opt/whisper''\<rparr>"

definition demoRemoteConfig :: config where
  "demoRemoteConfig = demoConfig\<lparr>useWebAPI := True, webAPIKey := Some ''sk-demo''\<rparr>"

definition demoBusyRemove :: "path \<Rightarrow> filesystem \<Rightarrow> string option" where
  "demoBusyRemove p fs = (if p = demoWav then Some ''EBUSY: resource busy or locked'' else None)"

definition demoNoHome :: externals where
  "demoNoHome = demoExternals\<lparr>env_HOME := None, execAsync := (\<lambda>cmd fs. (None, fs))\<rparr>"

text \<open>The rendering with timestamps of the test suite's subtitle text.\<close>

definition demoText :: string where
  "demoText = ''[00:00:00,000] Hello, this is a test transcription. \<newline>\<newline>[00:00:03,500] It contains multiple segments with timestamps. \<newline>\<newline>[00:00:07,200] This is the final segment.''"

definition demoBusy :: externals where
  "demoBusy = demoExternals\<lparr>execAsync := demoProcesses, fs_remove := demoBusyRemove\<rparr>"

section \<open>Facts about the string operations\<close>

lemma splitOn_ne: "splitOn d s \<noteq> []"
  by (induction s) (auto split: list.splits)

lemma splitOn_append: "splitOn d (a @ d # b) = splitOn d a @ splitOn d b"
proof (induction a)
  case Nil
  then show ?case by simp
next
  case (Cons c a)
  then show ?case
    using splitOn_ne [of d a] by (cases "splitOn d a") auto
qed

lemma splitOn_single: "d \<notin> set s \<Longrightarrow> splitOn d s = [s]"
  by (induction s) auto

lemma startsWith_iff: "startsWith s p \<longleftrightarrow> (\<exists>b. s = p @ b)"
  by (induction s p rule: startsWith.induct) auto

lemma includesStr_iff: "includesStr s sep \<longleftrightarrow> (\<exists>a b. s = a @ sep @ b)"
proof (induction s)
  case Nil
  then show ?case by auto
next
  case (Cons c cs)
  show ?case
  proof
    assume "includesStr (c # cs) sep"
    then consider "startsWith (c # cs) sep" | "includesStr cs sep" by auto
    then show "\<exists>a b. c # cs = a @ sep @ b"
    proof cases
      case 1
      then obtain b where "c # cs = sep @ b" using startsWith_iff by blast
      then have "c # cs = [] @ sep @ b" by simp
      then show ?thesis by blast
    next
      case 2
      then obtain a b where "cs = a @ sep @ b" using Cons.IH by blast
      then have "c # cs = (c # a) @ sep @ b" by simp
      then show ?thesis by blast
    qed
  next
    assume "\<exists>a b. c # cs = a @ sep @ b"
    then obtain a b where ab: "c # cs = a @ sep @ b" by blast
    show "includesStr (c # cs) sep"
    proof (cases a)
      case Nil
      with ab have "startsWith (c # cs) sep" using startsWith_iff by auto
      then show ?thesis by simp
    next
      case (Cons x a')
      with ab have "cs = a' @ sep @ b" by simp
      then have "includesStr cs sep" using Cons.IH by blast
      then show ?thesis by simp
    qed
  qed
qed



lemma dropWhile_suffix: "\<exists>a. s = a @ dropWhile P s"
  by (metis takeWhile_dropWhile_id)

lemma trim_decomp: "\<exists>a b. s = a @ trim s @ b"
proof -
  obtain a where a: "s = a @ dropWhile isWhiteSpace s" using dropWhile_suffix by blast
  obtain b where b: "rev (dropWhile isWhiteSpace s) = b @ dropWhile isWhiteSpace (rev (dropWhile isWhiteSpace s))"
    using dropWhile_suffix by blast
  have "dropWhile isWhiteSpace s = trim s @ rev b"
    using arg_cong [OF b, of rev] by (simp add: trim_def)
  with a have "s = a @ trim s @ rev b" by simp
  then show ?thesis by blast
qed

lemma includesStr_trim: "includesStr (trim s) sep \<Longrightarrow> includesStr s sep"
proof -
  assume "includesStr (trim s) sep"
  then obtain c d where cd: "trim s = c @ sep @ d" using includesStr_iff by blast
  obtain a b where ab: "s = a @ trim s @ b" using trim_decomp by blast
  have "s = (a @ c) @ sep @ (d @ b)" using ab cd by (metis append.assoc)
  then show ?thesis using includesStr_iff by blast
qed





section \<open>The subtitle parser on the canonical input\<close>

lemma splitOn_joinWith:
  "ls \<noteq> [] \<Longrightarrow> \<forall>l\<in>set ls. d \<notin> set l \<Longrightarrow> splitOn d (joinWith [d] ls) = ls"
proof (induction "[d]" ls rule: joinWith.induct)
  case 1
  then show ?case by simp
next
  case (2 x)
  then show ?case by (simp add: splitOn_single)
next
  case (3 x y ys)
  then have "splitOn d (joinWith [d] (y # ys)) = y # ys" by simp
  moreover have "splitOn d x = [x]" using 3 by (simp add: splitOn_single)
  ultimately show ?case using splitOn_append [of d x "joinWith [d] (y # ys)"] by simp
qed

lemma range_line_shape:
  assumes "includesStr s rangeSeparator"
  shows "s \<noteq> []" and "\<not> digitsOnly s"
proof -
  obtain a b where s: "s = a @ rangeSeparator @ b"
    using assms includesStr_iff by blast
  then show "s \<noteq> []" by (simp add: rangeSeparator_def)
  from s have "CHR '' '' \<in> set s" by (simp add: rangeSeparator_def)
  moreover have "\<not> isDigit (CHR '' '')" by (simp add: isDigit_def)
  ultimately show "\<not> digitsOnly s" by (auto simp: digitsOnly_def list_all_iff)
qed

lemma srtLine_range:
  assumes "includesStr (trim l) rangeSeparator"
  shows "srtLine (out, cur) l =
           ((if cur \<noteq> [] then out @ cur @ ''\<newline>\<newline>'' else out) @
            ''['' @ splitFirst (trim l) rangeSeparator @ ''] '', [])"
  using assms range_line_shape [OF assms] by (simp add: srtLine_def Let_def)










section \<open>The subtitle parser on a block without text\<close>

lemma range_not_text: "rangeLine r \<Longrightarrow> \<not> isTextLine r"
  by (auto simp: rangeLine_def isTextLine_def dest: includesStr_trim)

lemma trim_Nil: "trim [] = []"
  by (simp add: trim_def)

lemma blockText_Nil: "blockText [] = []"
  by (simp add: blockText_def)

lemma blockText_Cons: "blockText (l # body) = blockText [l] @ blockText body"
  by (simp add: blockText_def)

lemma blockText_skipped: "\<forall>l\<in>set gap. skippedLine l \<Longrightarrow> blockText gap = []"
  by (induction gap) (auto simp: blockText_def skippedLine_def)

lemma skipped_body: "skippedLine l \<Longrightarrow> bodyLine l"
  by (auto simp: skippedLine_def bodyLine_def dest: range_line_shape)

lemma srtLine_body: "bodyLine l \<Longrightarrow> srtLine (out, cur) l = (out, cur @ blockText [l])"
  by (auto simp: bodyLine_def srtLine_def blockText_def Let_def)

lemma foldl_body:
  "\<forall>l\<in>set body. bodyLine l \<Longrightarrow> foldl srtLine (out, cur) body = (out, cur @ blockText body)"
proof (induction body arbitrary: cur)
  case Nil
  then show ?case by (simp add: blockText_Nil)
next
  case (Cons l body)
  then show ?case
    using blockText_Cons [of l body] by (simp add: srtLine_body)
qed

lemma srtLine_marker:
  "rangeLine r \<Longrightarrow> srtLine (out, cur) r = (out @ flushText cur @ markerOf r, [])"
  by (simp add: rangeLine_def srtLine_range flushText_def markerOf_def)

lemma foldl_block:
  assumes "rangeLine r" "\<forall>l\<in>set body. bodyLine l"
  shows "foldl srtLine (out, cur) (r # body) = (out @ flushText cur @ markerOf r, blockText body)"
  using foldl_body [OF assms(2), of "out @ flushText cur @ markerOf r" "[]"]
  by (simp add: srtLine_marker [OF assms(1)])

lemma foldl_blocks:
  assumes "\<forall>b\<in>set (b0 # bs). rangeLine (fst b) \<and> (\<forall>l\<in>set (snd b). bodyLine l)"
  shows "fst (foldl srtLine (out, cur) (linesOfBlocks (b0 # bs))) @
         trim (snd (foldl srtLine (out, cur) (linesOfBlocks (b0 # bs)))) =
         out @ flushText cur @ renderBlocks (b0 # bs)"
  using assms
proof (induction bs arbitrary: b0 out cur)
  case Nil
  then have "foldl srtLine (out, cur) (fst b0 # snd b0) =
               (out @ flushText cur @ markerOf (fst b0), blockText (snd b0))"
    by (intro foldl_block) simp_all
  then show ?case by (simp add: linesOfBlocks_def)
next
  case (Cons b1 bs)
  have b0: "foldl srtLine (out, cur) (fst b0 # snd b0) =
               (out @ flushText cur @ markerOf (fst b0), blockText (snd b0))"
    using Cons.prems by (intro foldl_block) simp_all
  have split: "linesOfBlocks (b0 # b1 # bs) = (fst b0 # snd b0) @ linesOfBlocks (b1 # bs)"
    by (simp add: linesOfBlocks_def)
  have rest: "\<forall>b\<in>set (b1 # bs). rangeLine (fst b) \<and> (\<forall>l\<in>set (snd b). bodyLine l)"
    using Cons.prems by simp
  show ?case
    unfolding split foldl_append b0
    using Cons.IH [OF rest, of "out @ flushText cur @ markerOf (fst b0)" "blockText (snd b0)"]
    by simp
qed

lemma lines_join:
  assumes "\<forall>l\<in>set ls. CHR 0x0A \<notin> set l"
  shows "foldl srtLine st (splitOn CHR 0x0A (joinWith ''\<newline>'' ls)) = foldl srtLine st ls"
    and "filter isTextLine (splitOn CHR 0x0A (joinWith ''\<newline>'' ls)) = filter isTextLine ls"
proof -
  have e: "srtLine st [] = st" by (simp add: srtLine_def trim_Nil)
  have n: "\<not> isTextLine []" by (simp add: isTextLine_def trim_Nil)
  show "foldl srtLine st (splitOn CHR 0x0A (joinWith ''\<newline>'' ls)) = foldl srtLine st ls"
  proof (cases "ls = []")
    case True
    then show ?thesis by (simp add: e)
  next
    case False
    then show ?thesis using splitOn_joinWith [OF False assms] by simp
  qed
  show "filter isTextLine (splitOn CHR 0x0A (joinWith ''\<newline>'' ls)) = filter isTextLine ls"
  proof (cases "ls = []")
    case True
    then show ?thesis by (simp add: n)
  next
    case False
    then show ?thesis using splitOn_joinWith [OF False assms] by simp
  qed
qed

lemma convert_by_fold:
  "convertSrtToTimestampedText s =
     fst (foldl srtLine ([], []) (splitOn CHR 0x0A s)) @
     trim (snd (foldl srtLine ([], []) (splitOn CHR 0x0A s)))"
  by (simp add: convertSrtToTimestampedText_def Let_def trim_Nil)

lemma filter_blocks:
  "\<forall>b\<in>set bs. rangeLine (fst b) \<Longrightarrow>
   filter isTextLine (linesOfBlocks bs) = filter isTextLine (concat (map snd bs))"
  by (induction bs) (auto simp: linesOfBlocks_def dest: range_not_text)

lemma splitOn_free: "\<forall>l\<in>set (splitOn d s). d \<notin> set l"
proof (induction s)
  case Nil
  then show ?case by simp
next
  case (Cons c s)
  then show ?case
    using splitOn_ne [of d s] by (cases "splitOn d s") auto
qed

lemma joinWith_Cons_head: "joinWith sep ((c # l) # ls) = c # joinWith sep (l # ls)"
  by (cases ls) simp_all

lemma joinWith_splitOn: "joinWith [d] (splitOn d s) = s"
proof (induction s)
  case Nil
  then show ?case by simp
next
  case (Cons c s)
  obtain l ls where l: "splitOn d s = l # ls"
    using splitOn_ne [of d s] by (cases "splitOn d s") auto
  show ?case
    using Cons l by (simp add: joinWith_Cons_head)
qed

lemma lines_by_blocks:
  assumes "\<forall>l\<in>set ls. CHR 0x0A \<notin> set l"
  shows "\<exists>pre bs. ls = pre @ linesOfBlocks bs \<and> (\<forall>l\<in>set pre. bodyLine l) \<and>
           (\<forall>b\<in>set bs. rangeLine (fst b) \<and> (\<forall>l\<in>set (snd b). bodyLine l))"
  using assms
proof (induction ls)
  case Nil
  have "[] = [] @ linesOfBlocks []" by (simp add: linesOfBlocks_def)
  then show ?case by (metis empty_iff list.set(1))
next
  case (Cons l ls)
  then obtain pre bs where d: "ls = pre @ linesOfBlocks bs" "\<forall>l\<in>set pre. bodyLine l"
      "\<forall>b\<in>set bs. rangeLine (fst b) \<and> (\<forall>l\<in>set (snd b). bodyLine l)"
    by auto
  have lf: "CHR 0x0A \<notin> set l" using Cons.prems by simp
  show ?case
  proof (cases "includesStr (trim l) rangeSeparator")
    case True
    then have "rangeLine l" using lf by (simp add: rangeLine_def)
    moreover have "l # ls = [] @ linesOfBlocks ((l, pre) # bs)"
      using d(1) by (simp add: linesOfBlocks_def)
    ultimately show ?thesis
      using d(2,3)
      by (intro exI [of _ "[]"] exI [of _ "(l, pre) # bs"]) simp
  next
    case False
    then have "bodyLine l" using lf by (simp add: bodyLine_def)
    moreover have "l # ls = (l # pre) @ linesOfBlocks bs" using d(1) by simp
    ultimately show ?thesis
      using d(2,3)
      by (intro exI [of _ "l # pre"] exI [of _ bs]) simp
  qed
qed

lemma text_by_blocks:
  "\<exists>pre bs. s = joinWith ''\<newline>'' (pre @ linesOfBlocks bs) \<and> (\<forall>l\<in>set pre. bodyLine l) \<and>
     (\<forall>b\<in>set bs. rangeLine (fst b) \<and> (\<forall>l\<in>set (snd b). bodyLine l))"
proof -
  obtain pre bs where "splitOn CHR 0x0A s = pre @ linesOfBlocks bs" "\<forall>l\<in>set pre. bodyLine l"
      "\<forall>b\<in>set bs. rangeLine (fst b) \<and> (\<forall>l\<in>set (snd b). bodyLine l)"
    using lines_by_blocks [OF splitOn_free] by blast
  moreover have "s = joinWith ''\<newline>'' (splitOn CHR 0x0A s)"
    using joinWith_splitOn [of "CHR 0x0A" s] by simp
  ultimately show ?thesis by metis
qed

text \<open>
  Claim C9, as stated, fails, in two places. First, two blocks, the first with no text:
  the output is one line that holds both markers; no blank line separates the empty
  block from the next one, so the output is not a sequence of \<open>[start] text\<close> blocks
  separated by blank lines. Second, a line that holds the separator token and ends with
  it (a range line with no end time): the loop trims the line before it looks for the
  token, the trimmed line does not hold it, and the line is rendered as text, with no
  marker.
\<close>

theorem empty_block_breaks_shape:
  "convertSrtToTimestampedText
     ''1\<newline>00:00:00,000 --> 00:00:01,000\<newline>\<newline>2\<newline>00:00:01,000 --> 00:00:02,500\<newline>Hello''
     = ''[00:00:00,000] [00:00:01,000] Hello''
   \<and> CHR 0x0A \<notin> set (convertSrtToTimestampedText
     ''1\<newline>00:00:00,000 --> 00:00:01,000\<newline>\<newline>2\<newline>00:00:01,000 --> 00:00:02,500\<newline>Hello'')
   \<and> includesStr ''00:00:01,000 --> '' rangeSeparator
   \<and> convertSrtToTimestampedText ''00:00:01,000 --> \<newline>Hello'' = ''00:00:01,000 --> Hello''"
  by code_simp

text \<open>
  Claim C9, amended. Every text is the lines before its first range line followed by a
  list of blocks (a range line and the lines up to the next range line), and for every
  such text the rendering with timestamps is, in the order of the input, each block's marker
  \<open>[start] \<close> followed by the block's text; a blank line follows the text of every block
  that has text and is not the last, and nothing follows the marker of a block that has
  no text, so that the next marker stands on the same line, wherever the empty block
  stands (also in the loop itself, from any state); the rendering without timestamps is
  the text lines alone, and a line that holds the separator adds nothing to it. A line
  is a range line, whatever its timestamps look like, when it holds the separator once
  trimmed (with timestamps) or as it stands (without).
\<close>

theorem empty_block_rendering:
  assumes "\<forall>l\<in>set pre. bodyLine l"
      and "\<forall>b\<in>set bs. rangeLine (fst b) \<and> (\<forall>l\<in>set (snd b). bodyLine l)"
  shows "convertSrtToTimestampedText (joinWith ''\<newline>'' (pre @ linesOfBlocks bs)) =
           renderSubtitles pre bs
       \<and> plainTextOfSrt (joinWith ''\<newline>'' (pre @ linesOfBlocks bs)) =
           trim (joinWith '' '' (filter isTextLine (pre @ concat (map snd bs))))
       \<and> (\<forall>r body c rest. (\<forall>l\<in>set body. skippedLine l) \<longrightarrow>
             renderBlocks ((r, body) # c # rest) = markerOf r @ renderBlocks (c # rest))
       \<and> (\<forall>r1 gap r2 out cur.
             rangeLine r1 \<and> rangeLine r2 \<and> (\<forall>l\<in>set gap. skippedLine l) \<longrightarrow>
             foldl srtLine (out, cur) (r1 # gap @ [r2]) =
               (out @ flushText cur @ markerOf r1 @ markerOf r2, []))
       \<and> (\<forall>before l after.
             includesStr l rangeSeparator \<and> (\<forall>x\<in>set (before @ l # after). CHR 0x0A \<notin> set x) \<longrightarrow>
             plainTextOfSrt (joinWith ''\<newline>'' (before @ l # after)) =
               plainTextOfSrt (joinWith ''\<newline>'' (before @ after)))
       \<and> (\<forall>s. \<exists>pre' bs'.
             s = joinWith ''\<newline>'' (pre' @ linesOfBlocks bs') \<and> (\<forall>l\<in>set pre'. bodyLine l) \<and>
             (\<forall>b\<in>set bs'. rangeLine (fst b) \<and> (\<forall>l\<in>set (snd b). bodyLine l)))"
proof (intro conjI allI impI)
  have lf: "\<forall>l\<in>set (pre @ linesOfBlocks bs). CHR 0x0A \<notin> set l"
    using assms by (auto simp: linesOfBlocks_def bodyLine_def rangeLine_def)
  have p: "foldl srtLine ([], []) pre = ([], blockText pre)"
    using foldl_body [OF assms(1), of "[]" "[]"] by simp
  have conv: "convertSrtToTimestampedText (joinWith ''\<newline>'' (pre @ linesOfBlocks bs)) =
          fst (foldl srtLine ([], blockText pre) (linesOfBlocks bs)) @
          trim (snd (foldl srtLine ([], blockText pre) (linesOfBlocks bs)))"
    unfolding convert_by_fold lines_join(1) [OF lf] foldl_append p ..
  show "convertSrtToTimestampedText (joinWith ''\<newline>'' (pre @ linesOfBlocks bs)) =
          renderSubtitles pre bs"
  proof (cases bs)
    case Nil
    then show ?thesis
      unfolding conv by (simp add: renderSubtitles_def linesOfBlocks_def)
  next
    case (Cons b0 rest)
    have "\<forall>b\<in>set (b0 # rest). rangeLine (fst b) \<and> (\<forall>l\<in>set (snd b). bodyLine l)"
      using assms(2) Cons by simp
    from foldl_blocks [OF this, of "[]" "blockText pre"] show ?thesis
      unfolding conv by (simp add: renderSubtitles_def Cons)
  qed
  have "\<forall>b\<in>set bs. rangeLine (fst b)" using assms(2) by simp
  then show "plainTextOfSrt (joinWith ''\<newline>'' (pre @ linesOfBlocks bs)) =
          trim (joinWith '' '' (filter isTextLine (pre @ concat (map snd bs))))"
    by (simp add: plainTextOfSrt_def lines_join(2) [OF lf] filter_blocks)
next
  fix r body c rest
  assume "\<forall>l\<in>set body. skippedLine l"
  then show "renderBlocks ((r, body) # c # rest) = markerOf r @ renderBlocks (c # rest)"
    by (simp add: blockText_skipped flushText_def)
next
  fix r1 gap r2 out cur
  assume a: "rangeLine r1 \<and> rangeLine r2 \<and> (\<forall>l\<in>set gap. skippedLine l)"
  then have g: "\<forall>l\<in>set gap. bodyLine l" by (auto dest: skipped_body)
  have "foldl srtLine (out, cur) (r1 # gap) = (out @ flushText cur @ markerOf r1, [])"
    using foldl_block [of r1 gap out cur] a g by (simp add: blockText_skipped)
  moreover have "srtLine (out @ flushText cur @ markerOf r1, []) r2 =
                   (out @ flushText cur @ markerOf r1 @ markerOf r2, [])"
    using srtLine_marker [of r2 "out @ flushText cur @ markerOf r1" "[]"] a
    by (simp add: flushText_def)
  ultimately show "foldl srtLine (out, cur) (r1 # gap @ [r2]) =
               (out @ flushText cur @ markerOf r1 @ markerOf r2, [])"
    by simp
next
  fix before l after
  assume a: "includesStr l rangeSeparator \<and> (\<forall>x\<in>set (before @ l # after). CHR 0x0A \<notin> set x)"
  then have 1: "\<forall>x\<in>set (before @ l # after). CHR 0x0A \<notin> set x"
        and 2: "\<forall>x\<in>set (before @ after). CHR 0x0A \<notin> set x"
    by auto
  have "\<not> isTextLine l" using a by (simp add: isTextLine_def)
  then show "plainTextOfSrt (joinWith ''\<newline>'' (before @ l # after)) =
        plainTextOfSrt (joinWith ''\<newline>'' (before @ after))"
    by (simp add: plainTextOfSrt_def lines_join(2) [OF 1] lines_join(2) [OF 2])
next
  fix s
  show "\<exists>pre' bs'.
          s = joinWith ''\<newline>'' (pre' @ linesOfBlocks bs') \<and> (\<forall>l\<in>set pre'. bodyLine l) \<and>
          (\<forall>b\<in>set bs'. rangeLine (fst b) \<and> (\<forall>l\<in>set (snd b). bodyLine l))"
    by (rule text_by_blocks)
qed

theorem empty_block_rendering_witness:
  "convertSrtToTimestampedText
     ''1\<newline>00:00:00,000 --> 00:00:01,000\<newline>First\<newline>\<newline>2\<newline>soon --> later\<newline>\<newline>3\<newline>00:00:02,000 --> 00:00:03,000\<newline>Third''
     = ''[00:00:00,000] First \<newline>\<newline>[soon] [00:00:02,000] Third''
   \<and> plainTextOfSrt
     ''1\<newline>00:00:00,000 --> 00:00:01,000\<newline>First\<newline>\<newline>2\<newline>soon --> later\<newline>\<newline>3\<newline>00:00:02,000 --> 00:00:03,000\<newline>Third''
     = ''First Third''
   \<and> foldl srtLine (''[00:00:00,000] '', ''First '')
       [''soon --> later'', [], ''3'', ''00:00:02,000 --> 00:00:03,000''] =
     (''[00:00:00,000] First \<newline>\<newline>[soon] [00:00:02,000] '', [])
   \<and> plainTextOfSrt ''First\<newline>00:00:01,000 --> \<newline>Third'' = plainTextOfSrt ''First\<newline>Third''"
proof -
  let ?r0 = "''00:00:00,000 --> 00:00:01,000''"
  let ?r1 = "''soon --> later''"
  let ?r2 = "''00:00:02,000 --> 00:00:03,000''"
  let ?pre = "[''1'']"
  let ?bs = "[(?r0, [''First'', [], ''2'']), (?r1, [[], ''3'']), (?r2, [''Third''])]"
  have tr: "trim ?r0 = ?r0" "trim ?r1 = ?r1" "trim ?r2 = ?r2" "trim ''First'' = ''First''"
           "trim ''Third'' = ''Third''" "trim ''1'' = ''1''" "trim ''2'' = ''2''" "trim ''3'' = ''3''"
           "trim [] = []"
    by (simp_all add: trim_def isWhiteSpace_def)
  have h1: "\<forall>l\<in>set ?pre. bodyLine l"
    unfolding bodyLine_def by (simp add: tr rangeSeparator_def)
  have rl: "rangeLine ?r0" "rangeLine ?r1" "rangeLine ?r2"
    unfolding rangeLine_def tr by (simp_all add: rangeSeparator_def)
  have bl: "bodyLine ''First''" "bodyLine []" "bodyLine ''2''" "bodyLine ''3''" "bodyLine ''Third''"
    unfolding bodyLine_def tr by (simp_all add: rangeSeparator_def)
  have sk: "\<forall>l\<in>set [[], ''3'']. skippedLine l"
    unfolding skippedLine_def by (simp add: tr digitsOnly_def isDigit_def)
  have h2: "\<forall>b\<in>set ?bs. rangeLine (fst b) \<and> (\<forall>l\<in>set (snd b). bodyLine l)"
    by (simp add: rl bl)
  have inp: "joinWith ''\<newline>'' (?pre @ linesOfBlocks ?bs) =
     ''1\<newline>00:00:00,000 --> 00:00:01,000\<newline>First\<newline>\<newline>2\<newline>soon --> later\<newline>\<newline>3\<newline>00:00:02,000 --> 00:00:03,000\<newline>Third''"
    by (simp add: linesOfBlocks_def)
  have out: "renderSubtitles ?pre ?bs = ''[00:00:00,000] First \<newline>\<newline>[soon] [00:00:02,000] Third''"
    by code_simp
  have pl: "trim (joinWith '' '' (filter isTextLine (?pre @ concat (map snd ?bs)))) = ''First Third''"
    by code_simp
  have mk: "''[00:00:00,000] '' @ flushText ''First '' @ markerOf ?r1 @ markerOf ?r2 =
              ''[00:00:00,000] First \<newline>\<newline>[soon] [00:00:02,000] ''"
    by code_simp
  have inc: "includesStr ''00:00:01,000 --> '' rangeSeparator"
    by (simp add: rangeSeparator_def)
  have lf: "\<forall>x\<in>set ([''First''] @ ''00:00:01,000 --> '' # [''Third'']). CHR 0x0A \<notin> set x"
    by simp
  note t = empty_block_rendering [OF h1 h2]
  have a: "convertSrtToTimestampedText (joinWith ''\<newline>'' (?pre @ linesOfBlocks ?bs)) =
             renderSubtitles ?pre ?bs"
    using t by blast
  have b: "plainTextOfSrt (joinWith ''\<newline>'' (?pre @ linesOfBlocks ?bs)) =
             trim (joinWith '' '' (filter isTextLine (?pre @ concat (map snd ?bs))))"
    using t by blast
  have c: "foldl srtLine (''[00:00:00,000] '', ''First '') (?r1 # [[], ''3''] @ [?r2]) =
             (''[00:00:00,000] '' @ flushText ''First '' @ markerOf ?r1 @ markerOf ?r2, [])"
    using t rl sk by blast
  have d: "plainTextOfSrt (joinWith ''\<newline>'' ([''First''] @ ''00:00:01,000 --> '' # [''Third''])) =
           plainTextOfSrt (joinWith ''\<newline>'' ([''First''] @ [''Third'']))"
    using t inc lf by blast
  show ?thesis
    using a b c d unfolding inp out pl mk by simp
qed

section \<open>What a call of the orchestrator returns\<close>

lemmas demo_defs =
  demoConfig_def demoExternals_def demoOptions_def demoWorld_def demoBasename_def
  demoExtname_def demoBasenameExt_def demoWav_def demoSrt_def

lemmas discovery_defs =
  checkWhisperAvailability_def customPathFound_def commonPaths_def runCommand_def existsSync_def

lemma transcribe_missing:
  "\<not> existsSync w inputFilePath \<Longrightarrow>
   transcribe cfg ex inputFilePath opts w =
     (Inl (''Transcription failed: '' @ ''Input file not found: '' @ inputFilePath), w)"
  by (simp add: transcribe_def transcribeBody_def)

lemma transcribe_mock:
  assumes "existsSync w inputFilePath"
      and "\<not> available (fst (checkWhisperAvailability cfg ex w))"
      and "\<not> useWebAPI cfg \<or> \<not> truthy (webAPIKey cfg)"
  shows "transcribe cfg ex inputFilePath opts w =
           (Inr (buildResult cfg ex opts inputFilePath (fileSizeOf w inputFilePath)
                   (mockFor ex w inputFilePath) ''mock'' None),
            snd (checkWhisperAvailability cfg ex w))"
  using assms
  by (cases "checkWhisperAvailability cfg ex w")
     (auto simp: transcribe_def transcribeBody_def Let_def)

text \<open>
  Claim C6. For an input path that does not exist, \<open>transcribe\<close> fails with the
  file-not-found message and leaves the world as it was: no command was run, no request
  was sent, and no file came into existence.
\<close>

theorem missing_input_fails_first:
  assumes "\<not> existsSync w inputFilePath"
  shows "transcribe cfg ex inputFilePath opts w =
           (Inl (''Transcription failed: Input file not found: '' @ inputFilePath), w)"
  using transcribe_missing [OF assms] by simp

theorem missing_input_fails_first_witness:
  "transcribe demoConfig demoExternals ''/in/nothing.mp3'' demoOptions demoWorld =
     (Inl ''Transcription failed: Input file not found: /in/nothing.mp3'', demoWorld)"
proof -
  have "\<not> existsSync demoWorld ''/in/nothing.mp3''"
    by (simp add: existsSync_def demoWorld_def)
  from missing_input_fails_first [OF this] show ?thesis by simp
qed

text \<open>
  Claim C5. For an input file that exists, when discovery reports the local executable
  unavailable and the remote mode is off or no key is configured, \<open>transcribe\<close>
  returns a result (it does not throw) whose method is \<^verbatim>\<open>'mock'\<close>, the code's name of
  the placeholder method, and whose text is what \<open>generateMockTranscription\<close> makes of
  the file's name, size and content type.
\<close>

theorem placeholder_without_backend:
  assumes "existsSync w inputFilePath"
      and "\<not> available (fst (checkWhisperAvailability cfg ex w))"
      and "\<not> useWebAPI cfg \<or> \<not> truthy (webAPIKey cfg)"
  shows "\<exists>r. fst (transcribe cfg ex inputFilePath opts w) = Inr r
           \<and> method_field (file_info r) = ''mock''
           \<and> text_field r =
               generateMockTranscription ex (path_basename ex inputFilePath)
                 (fileSizeOf w inputFilePath) (contentTypeOf (fileExtOf ex inputFilePath))"
  using transcribe_mock [OF assms] by (simp add: buildResult_def mockFor_def)

lemma demo_unavailable:
  "checkWhisperAvailability demoConfig demoExternals demoWorld =
     (\<lparr>available = False, path = None, error = Some ''Command failed: whisper --help''\<rparr>,
      demoWorld\<lparr>events := [Exec ''whisper --help'']\<rparr>)"
  by (simp add: discovery_defs demo_defs)

lemma demo_mock_text:
  "generateMockTranscription demoExternals (path_basename demoExternals ''/in/talk.mp3'')
     (fileSizeOf demoWorld ''/in/talk.mp3'')
     (contentTypeOf (fileExtOf demoExternals ''/in/talk.mp3'')) =
   ''[MOCK TRANSCRIPTION] This is a sample transcription that shows how the output would appear. The text would contain the actual spoken words from your audio file, with proper punctuation and formatting.\<newline>\<newline>File: talk.mp3\<newline>Size: 2.00 KB\<newline>Type: audio/mpeg''"
  by (simp add: generateMockTranscription_def mockTexts_def fileSizeOf_def fileExtOf_def
        contentTypeOf_def mimeTypes_def sizeKb_def natToString.simps demo_defs)

theorem placeholder_without_backend_witness:
  "\<exists>r. fst (transcribe demoConfig demoExternals ''/in/talk.mp3'' demoOptions demoWorld) = Inr r
       \<and> method_field (file_info r) = ''mock''
       \<and> text_field r =
   ''[MOCK TRANSCRIPTION] This is a sample transcription that shows how the output would appear. The text would contain the actual spoken words from your audio file, with proper punctuation and formatting.\<newline>\<newline>File: talk.mp3\<newline>Size: 2.00 KB\<newline>Type: audio/mpeg''"
proof -
  have 1: "existsSync demoWorld ''/in/talk.mp3''"
    by (simp add: existsSync_def demoWorld_def)
  have 2: "\<not> available (fst (checkWhisperAvailability demoConfig demoExternals demoWorld))"
    by (simp add: demo_unavailable)
  have 3: "\<not> useWebAPI demoConfig \<or> \<not> truthy (webAPIKey demoConfig)"
    by (simp add: demoConfig_def)
  from placeholder_without_backend [OF 1 2 3, of demoOptions] show ?thesis
    unfolding demo_mock_text .
qed

lemma available_has_path:
  "available (fst (checkWhisperAvailability cfg ex w)) \<Longrightarrow>
   path (fst (checkWhisperAvailability cfg ex w)) \<noteq> None"
  by (auto simp: discovery_defs split: if_splits sum.splits option.splits prod.splits)

text \<open>
  Claim C10. In every result \<open>transcribe\<close> returns, the field \<^verbatim>\<open>whisper_path\<close> is the
  locator discovery returned (and not \<^verbatim>\<open>null\<close>) when the method is \<^verbatim>\<open>'whisper'\<close>, the
  code's name of the local method, and is \<^verbatim>\<open>null\<close> when the method is any other; the
  method is \<^verbatim>\<open>'whisper'\<close> exactly when discovery reported the executable available.
\<close>

theorem whisper_path_matches_method:
  assumes "fst (transcribe cfg ex inputFilePath opts w) = Inr r"
  shows "(method_field (file_info r) = ''whisper'' \<longrightarrow>
            available (fst (checkWhisperAvailability cfg ex w)) \<and>
            whisper_path (file_info r) = path (fst (checkWhisperAvailability cfg ex w)) \<and>
            whisper_path (file_info r) \<noteq> None)
       \<and> (method_field (file_info r) \<noteq> ''whisper'' \<longrightarrow>
            \<not> available (fst (checkWhisperAvailability cfg ex w)) \<and>
            whisper_path (file_info r) = None)"
proof (cases "existsSync w inputFilePath")
  case False
  with assms show ?thesis by (simp add: transcribe_missing)
next
  case True
  obtain chk w1 where c: "checkWhisperAvailability cfg ex w = (chk, w1)"
    by (cases "checkWhisperAvailability cfg ex w")
  show ?thesis
  proof (cases "available chk")
    case av: True
    then have "path chk \<noteq> None" using available_has_path [of cfg ex w] c by simp
    with assms True c av show ?thesis
      by (auto simp: transcribe_def transcribeBody_def buildResult_def Let_def
            split: attempt.splits sum.splits)
  next
    case nav: False
    with assms True c show ?thesis
      by (auto simp: transcribe_def transcribeBody_def buildResult_def Let_def
            split: sum.splits prod.splits if_splits)
  qed
qed

lemma transcribe_local:
  assumes "existsSync w inputFilePath"
      and "checkWhisperAvailability cfg ex w = (chk, w1)"
      and "available chk"
  shows "transcribe cfg ex inputFilePath opts w =
           (case localAttempt cfg ex opts inputFilePath (fileExtOf ex inputFilePath) (path chk) w1 of
              ConversionFailed msg w2 \<Rightarrow> (Inl (''Transcription failed: '' @ msg), w2)
            | Attempted r tempFiles w2 \<Rightarrow>
                (case r of
                   Inl msg \<Rightarrow> (Inl (''Transcription failed: '' @ msg), cleanupFiles cfg ex tempFiles w2)
                 | Inr t \<Rightarrow>
                     (Inr (buildResult cfg ex opts inputFilePath (fileSizeOf w inputFilePath) t
                             ''whisper'' (path chk)),
                      cleanupFiles cfg ex tempFiles w2)))"
  using assms
  by (simp add: transcribe_def transcribeBody_def Let_def split: attempt.splits sum.splits)

lemma localAttempt_converted:
  assumes "fst (conversionRun cfg ex inputFilePath w) = None"
  shows "localAttempt cfg ex opts inputFilePath (fileExtOf ex inputFilePath) p
           (snd (checkWhisperAvailability cfg ex w)) =
         (case whisperAttempt cfg ex opts p (audioFileOf cfg ex inputFilePath)
                 (if fileExtOf ex inputFilePath \<noteq> ''.wav'' then [wavFileOf cfg ex] else [])
                 (snd (conversionRun cfg ex inputFilePath w)) of
            (r, tempFiles, w'') \<Rightarrow> Attempted r tempFiles w'')"
  using assms
  by (auto simp: localAttempt_def conversionRun_def audioFileOf_def Let_def split: prod.splits)

lemma whisperAttempt_failed:
  assumes "fst (runCommand ex (whisperCmd cfg p audioFile) w) = Some msg"
  shows "whisperAttempt cfg ex opts p audioFile tempFiles w =
           (Inl (''Whisper transcription failed: '' @ msg), tempFiles,
            snd (runCommand ex (whisperCmd cfg p audioFile) w))"
  using assms by (auto simp: whisperAttempt_def split: prod.splits option.splits)

lemma whisperAttempt_no_output:
  assumes "fst (runCommand ex (whisperCmd cfg p audioFile) w) = None"
      and "\<not> existsSync (snd (runCommand ex (whisperCmd cfg p audioFile) w)) (srtFileOf cfg ex audioFile)"
  shows "whisperAttempt cfg ex opts p audioFile tempFiles w =
           (Inl ''Whisper transcription failed: Whisper did not generate SRT output'', tempFiles,
            snd (runCommand ex (whisperCmd cfg p audioFile) w))"
  using assms by (auto simp: whisperAttempt_def existsSync_def Let_def split: prod.splits option.splits)

lemma local_whisper_failed:
  assumes "existsSync w inputFilePath"
      and "available (fst (checkWhisperAvailability cfg ex w))"
      and "fst (conversionRun cfg ex inputFilePath w) = None"
      and "fst (whisperRun cfg ex inputFilePath w) = Some msg"
  shows "fst (transcribe cfg ex inputFilePath opts w) =
           Inl (''Transcription failed: Whisper transcription failed: '' @ msg)"
proof -
  obtain chk w1 where c: "checkWhisperAvailability cfg ex w = (chk, w1)"
    by (cases "checkWhisperAvailability cfg ex w")
  have r: "fst (runCommand ex (whisperCmd cfg (path chk) (audioFileOf cfg ex inputFilePath))
                  (snd (conversionRun cfg ex inputFilePath w))) = Some msg"
    using assms(4) c by (simp add: whisperRun_def)
  show ?thesis
    using transcribe_local [OF assms(1) c] assms(2) c
          localAttempt_converted [OF assms(3), of opts "path chk"]
          whisperAttempt_failed [OF r]
    by simp
qed

lemma local_whisper_silent:
  assumes "existsSync w inputFilePath"
      and "available (fst (checkWhisperAvailability cfg ex w))"
      and "fst (conversionRun cfg ex inputFilePath w) = None"
      and "fst (whisperRun cfg ex inputFilePath w) = None"
      and "\<not> existsSync (snd (whisperRun cfg ex inputFilePath w))
              (srtFileOf cfg ex (audioFileOf cfg ex inputFilePath))"
  shows "fst (transcribe cfg ex inputFilePath opts w) =
           Inl ''Transcription failed: Whisper transcription failed: Whisper did not generate SRT output''"
proof -
  obtain chk w1 where c: "checkWhisperAvailability cfg ex w = (chk, w1)"
    by (cases "checkWhisperAvailability cfg ex w")
  have r: "fst (runCommand ex (whisperCmd cfg (path chk) (audioFileOf cfg ex inputFilePath))
                  (snd (conversionRun cfg ex inputFilePath w))) = None"
    using assms(4) c by (simp add: whisperRun_def)
  have n: "\<not> existsSync (snd (runCommand ex (whisperCmd cfg (path chk) (audioFileOf cfg ex inputFilePath))
                  (snd (conversionRun cfg ex inputFilePath w))))
              (srtFileOf cfg ex (audioFileOf cfg ex inputFilePath))"
    using assms(5) c by (simp add: whisperRun_def)
  show ?thesis
    using transcribe_local [OF assms(1) c] assms(2) c
          localAttempt_converted [OF assms(3), of opts "path chk"]
          whisperAttempt_no_output [OF r n]
    by simp
qed

section \<open>The trace of a call\<close>

lemma extendsBy_refl: "extendsBy P w w"
  by (simp add: extendsBy_def)

lemma extendsBy_trans: "extendsBy P w w1 \<Longrightarrow> extendsBy P w1 w2 \<Longrightarrow> extendsBy P w w2"
  by (auto simp: extendsBy_def)

lemma extendsBy_mono: "extendsBy P w w' \<Longrightarrow> (\<And>e. P e \<Longrightarrow> Q e) \<Longrightarrow> extendsBy Q w w'"
  by (auto simp: extendsBy_def list_all_iff)

lemma extendsBy_new: "extendsBy P w w' \<Longrightarrow> list_all P (newEvents w w')"
  by (auto simp: extendsBy_def newEvents_def)


lemma runCommand_extends: "extendsBy isExec w (snd (runCommand ex cmd w))"
  by (simp add: extendsBy_def runCommand_def Let_def isExec_def)

lemma check_extends: "extendsBy isExec w (snd (checkWhisperAvailability cfg ex w))"
  using runCommand_extends [where w = w and ex = ex and cmd = "''whisper --help''"]
  by (auto simp: checkWhisperAvailability_def extendsBy_refl
           split: sum.splits option.splits prod.splits)

lemma whisperAttempt_extends:
  "whisperAttempt cfg ex opts p audioFile tempFiles w = (r, tempFiles', w') \<Longrightarrow> extendsBy isExec w w'"
  using runCommand_extends [where w = w and ex = ex and cmd = "whisperCmd cfg p audioFile"]
  by (auto simp: whisperAttempt_def Let_def split: prod.splits option.splits)

lemma localAttempt_extends:
  "localAttempt cfg ex opts inputFilePath fileExt p w = Attempted r tempFiles w' \<Longrightarrow>
   extendsBy isExec w w'"
  "localAttempt cfg ex opts inputFilePath fileExt p w = ConversionFailed msg w' \<Longrightarrow>
   extendsBy isExec w w'"
proof -
  let ?c = "runCommand ex (ffmpegCmd inputFilePath (wavFileOf cfg ex)) w"
  have c: "extendsBy isExec w (snd ?c)" by (rule runCommand_extends)
  show "localAttempt cfg ex opts inputFilePath fileExt p w = Attempted r tempFiles w' \<Longrightarrow>
        extendsBy isExec w w'"
    using c
    by (auto simp: localAttempt_def Let_def split: if_splits prod.splits option.splits
             dest: whisperAttempt_extends intro: extendsBy_trans)
  show "localAttempt cfg ex opts inputFilePath fileExt p w = ConversionFailed msg w' \<Longrightarrow>
        extendsBy isExec w w'"
    using c
    by (auto simp: localAttempt_def Let_def split: if_splits prod.splits option.splits)
qed

lemma cleanupLoop_extends: "extendsBy isCleanup w (cleanupLoop ex fs w)"
proof (induction fs arbitrary: w)
  case Nil
  then show ?case by (simp add: extendsBy_refl)
next
  case (Cons f rest)
  let ?ok = "w\<lparr>files := (files w)(f := None), events := events w @ [Remove f]\<rparr>"
  have ok: "extendsBy isCleanup w ?ok" by (simp add: extendsBy_def isCleanup_def)
  have bad: "extendsBy isCleanup w (w\<lparr>events := events w @ [Remove f, Warn m]\<rparr>)" for m
    by (simp add: extendsBy_def isCleanup_def)
  show ?case
    using extendsBy_trans [OF ok Cons.IH] extendsBy_trans [OF bad Cons.IH] Cons.IH [of w]
    by (auto split: option.splits)
qed

lemma cleanupFiles_extends: "extendsBy isCleanup w (cleanupFiles cfg ex fs w)"
  by (simp add: cleanupFiles_def extendsBy_refl cleanupLoop_extends)

lemma probe_extends: "extendsBy isNetwork w (snd (checkWebAPIAvailability cfg ex w))"
  by (auto simp: checkWebAPIAvailability_def extendsBy_def isNetwork_def Let_def
           split: sum.splits head_outcome.splits)

lemma client_extends: "extendsBy isNetwork w (snd (transcribeWithWebAPI cfg ex inputFilePath opts w))"
  by (auto simp: transcribeWithWebAPI_def extendsBy_def isNetwork_def Let_def
           split: sum.splits post_outcome.splits option.splits)


lemma transcribe_local_extends:
  assumes "existsSync w inputFilePath"
      and "available (fst (checkWhisperAvailability cfg ex w))"
  shows "extendsBy (\<lambda>e. isExec e \<or> isCleanup e) w (snd (transcribe cfg ex inputFilePath opts w))"
proof -
  let ?R = "\<lambda>e. isExec e \<or> isCleanup e"
  obtain chk w1 where c: "checkWhisperAvailability cfg ex w = (chk, w1)"
    by (cases "checkWhisperAvailability cfg ex w")
  have av: "available chk" using assms(2) c by simp
  have e1: "extendsBy ?R w w1"
    using check_extends [of w cfg ex] c by (auto intro: extendsBy_mono)
  note t = transcribe_local [OF assms(1) c av, of opts]
  show ?thesis
  proof (cases "localAttempt cfg ex opts inputFilePath (fileExtOf ex inputFilePath) (path chk) w1")
    case (ConversionFailed msg w2)
    then have "extendsBy ?R w1 w2" by (auto dest: localAttempt_extends(2) intro: extendsBy_mono)
    with e1 ConversionFailed t show ?thesis by (auto intro: extendsBy_trans)
  next
    case (Attempted r tempFiles w2)
    then have "extendsBy ?R w1 w2" by (auto dest: localAttempt_extends(1) intro: extendsBy_mono)
    moreover have "extendsBy ?R w2 (cleanupFiles cfg ex tempFiles w2)"
      by (rule extendsBy_mono [OF cleanupFiles_extends]) simp
    ultimately have "extendsBy ?R w (cleanupFiles cfg ex tempFiles w2)"
      using e1 by (blast intro: extendsBy_trans)
    with Attempted t show ?thesis by (cases r) auto
  qed
qed

lemma local_no_network:
  assumes "existsSync w inputFilePath"
      and "available (fst (checkWhisperAvailability cfg ex w))"
  shows "filter isNetwork (newEvents w (snd (transcribe cfg ex inputFilePath opts w))) = []"
proof -
  have "list_all (\<lambda>e. isExec e \<or> isCleanup e)
          (newEvents w (snd (transcribe cfg ex inputFilePath opts w)))"
    by (rule extendsBy_new [OF transcribe_local_extends [OF assms]])
  moreover have "\<not> isNetwork e" if "isExec e \<or> isCleanup e" for e
    using that by (cases e) (auto simp: isExec_def isCleanup_def isNetwork_def)
  ultimately show ?thesis by (auto simp: filter_empty_conv list_all_iff)
qed

text \<open>
  Claim C3. When the input exists, discovery reports the executable available and the
  conversion (if one is needed) has succeeded: if running the executable fails with a
  message, \<open>transcribe\<close> fails with an error that carries that message; if the run
  succeeds and the expected subtitle file does not exist, \<open>transcribe\<close> fails with the
  error of its own for that case; and the call sends no HTTPS request, so neither the
  remote path nor (the result being an error) the placeholder path is taken.
\<close>

theorem local_failure_is_fatal:
  assumes "existsSync w inputFilePath"
      and "available (fst (checkWhisperAvailability cfg ex w))"
      and "fst (conversionRun cfg ex inputFilePath w) = None"
  shows "(\<forall>msg. fst (whisperRun cfg ex inputFilePath w) = Some msg \<longrightarrow>
            fst (transcribe cfg ex inputFilePath opts w) =
              Inl (''Transcription failed: Whisper transcription failed: '' @ msg))
       \<and> (fst (whisperRun cfg ex inputFilePath w) = None \<and>
          \<not> existsSync (snd (whisperRun cfg ex inputFilePath w))
              (srtFileOf cfg ex (audioFileOf cfg ex inputFilePath)) \<longrightarrow>
            fst (transcribe cfg ex inputFilePath opts w) =
              Inl ''Transcription failed: Whisper transcription failed: Whisper did not generate SRT output'')
       \<and> filter isNetwork (newEvents w (snd (transcribe cfg ex inputFilePath opts w))) = []"
  using local_whisper_failed [OF assms] local_whisper_silent [OF assms]
        local_no_network [OF assms(1,2)]
  by blast


section \<open>Cleanup of the temporary files of a call\<close>






section \<open>The examples\<close>

lemmas demo_local_defs = demoLocalConfig_def demoProcesses_def demoConverterOnly_def demoSilent_def
  demoBusyRemove_def

lemma demo_exists: "existsSync demoWorld ''/in/talk.mp3''"
  by (simp add: existsSync_def demoWorld_def)

lemma demo_local_check:
  "checkWhisperAvailability demoLocalConfig ex demoWorld =
     (\<lparr>available = True, path = Some ''/opt/whisper'', error = None\<rparr>, demoWorld)"
  by (simp add: checkWhisperAvailability_def customPathFound_def existsSync_def demo_defs demo_local_defs)

lemma demo_timestamp: "intToString 1700000000250 = ''1700000000250''"
  by (simp add: intToString_def natToString.simps)

lemma demo_ext:
  "fileExtOf (demoExternals\<lparr>execAsync := p\<rparr>) ''/in/talk.mp3'' = ''.mp3''"
  "fileExtOf (demoExternals\<lparr>execAsync := p, fs_remove := q\<rparr>) ''/in/talk.mp3'' = ''.mp3''"
  by (simp_all add: fileExtOf_def demo_defs)

lemma demo_wav:
  "wavFileOf demoLocalConfig (demoExternals\<lparr>execAsync := p\<rparr>) = demoWav"
  "wavFileOf demoLocalConfig (demoExternals\<lparr>execAsync := p, fs_remove := q\<rparr>) = demoWav"
  by (simp_all add: wavFileOf_def demo_defs demo_local_defs demo_timestamp)

lemma demo_srt:
  "srtFileOf demoLocalConfig (demoExternals\<lparr>execAsync := p\<rparr>) demoWav = demoSrt"
  "srtFileOf demoLocalConfig (demoExternals\<lparr>execAsync := p, fs_remove := q\<rparr>) demoWav = demoSrt"
  by (simp_all add: srtFileOf_def demo_defs demo_local_defs)

lemma demo_ffmpeg: "startsWith (ffmpegCmd a b) ''ffmpeg ''"
  by (simp add: ffmpegCmd_def)

lemma demo_whisper: "\<not> startsWith (whisperCmd c p a) ''ffmpeg ''"
  by (simp add: whisperCmd_def quoted_def)

theorem local_failure_is_fatal_witness:
  "fst (transcribe demoLocalConfig (demoExternals\<lparr>execAsync := demoConverterOnly\<rparr>)
         ''/in/talk.mp3'' demoOptions demoWorld) =
     Inl ''Transcription failed: Whisper transcription failed: Command failed: out of memory''
   \<and> fst (transcribe demoLocalConfig (demoExternals\<lparr>execAsync := demoSilent\<rparr>)
         ''/in/talk.mp3'' demoOptions demoWorld) =
     Inl ''Transcription failed: Whisper transcription failed: Whisper did not generate SRT output''"
proof -
  let ?A = "demoExternals\<lparr>execAsync := demoConverterOnly\<rparr>"
  let ?B = "demoExternals\<lparr>execAsync := demoSilent\<rparr>"
  have avA: "available (fst (checkWhisperAvailability demoLocalConfig ?A demoWorld))"
   and avB: "available (fst (checkWhisperAvailability demoLocalConfig ?B demoWorld))"
    by (simp_all add: demo_local_check)
  have cvA: "fst (conversionRun demoLocalConfig ?A ''/in/talk.mp3'' demoWorld) = None"
    by (simp add: conversionRun_def demo_ext demo_wav demo_local_check runCommand_def
          demoConverterOnly_def demo_ffmpeg)
  have cvB: "fst (conversionRun demoLocalConfig ?B ''/in/talk.mp3'' demoWorld) = None"
    by (simp add: conversionRun_def demo_ext demo_wav demo_local_check runCommand_def
          demoSilent_def demo_ffmpeg)
  have rA: "fst (whisperRun demoLocalConfig ?A ''/in/talk.mp3'' demoWorld) =
              Some ''Command failed: out of memory''"
    by (simp add: whisperRun_def runCommand_def demoConverterOnly_def demo_whisper)
  have rB: "fst (whisperRun demoLocalConfig ?B ''/in/talk.mp3'' demoWorld) = None"
    by (simp add: whisperRun_def runCommand_def demoSilent_def demo_whisper)
  have nB: "\<not> existsSync (snd (whisperRun demoLocalConfig ?B ''/in/talk.mp3'' demoWorld))
              (srtFileOf demoLocalConfig ?B (audioFileOf demoLocalConfig ?B ''/in/talk.mp3''))"
    by (simp add: whisperRun_def conversionRun_def audioFileOf_def demo_ext demo_wav demo_srt
          demo_local_check runCommand_def demoSilent_def demo_ffmpeg demo_whisper existsSync_def,
        simp add: demoWorld_def demoWav_def demoSrt_def)
  show ?thesis
    using local_failure_is_fatal [OF demo_exists avA cvA, of demoOptions]
          local_failure_is_fatal [OF demo_exists avB cvB, of demoOptions] rA rB nB
    by simp
qed

lemma sample_timestamped: "convertSrtToTimestampedText sampleSrt = demoText"
  by code_simp

lemma demo_attempt:
  "localAttempt demoLocalConfig (demoExternals\<lparr>execAsync := demoProcesses, fs_remove := q\<rparr>)
     demoOptions ''/in/talk.mp3'' ''.mp3'' (Some ''/opt/whisper'') demoWorld =
   Attempted (Inr demoText) [demoWav, demoSrt]
     (demoWorld\<lparr>files := (files demoWorld)
                  (demoWav \<mapsto> \<lparr>st_size = 320044, utf8 = ''RIFF''\<rparr>,
                   demoSrt \<mapsto> \<lparr>st_size = 193, utf8 = sampleSrt\<rparr>),
                events := [Exec (ffmpegCmd ''/in/talk.mp3'' demoWav),
                           Exec (whisperCmd demoLocalConfig (Some ''/opt/whisper'') demoWav)]\<rparr>)"
  by (simp add: localAttempt_def whisperAttempt_def demo_wav demo_srt runCommand_def
        demoProcesses_def demo_ffmpeg demo_whisper sample_timestamped demoOptions_def,
      simp add: demoWorld_def)

lemma demo_cleanup:
  "cleanupFiles demoLocalConfig (demoExternals\<lparr>execAsync := p, fs_remove := demoBusyRemove\<rparr>)
     [demoWav, demoSrt]
     (demoWorld\<lparr>files := (files demoWorld)(demoWav \<mapsto> a, demoSrt \<mapsto> b), events := es\<rparr>) =
   demoWorld\<lparr>files := (files demoWorld)(demoWav \<mapsto> a, demoSrt := None),
             events := es @ [Remove demoWav,
                             Warn (cleanupWarning demoWav ''EBUSY: resource busy or locked''),
                             Remove demoSrt]\<rparr>"
  by (simp add: cleanupFiles_def existsSync_def demoBusyRemove_def demoLocalConfig_def demoConfig_def
        demoWav_def demoSrt_def)

lemma demo_local_transcribe:
  "transcribe demoLocalConfig (demoExternals\<lparr>execAsync := demoProcesses, fs_remove := demoBusyRemove\<rparr>)
     ''/in/talk.mp3'' demoOptions demoWorld =
   (Inr (buildResult demoLocalConfig (demoExternals\<lparr>execAsync := demoProcesses, fs_remove := demoBusyRemove\<rparr>)
           demoOptions ''/in/talk.mp3'' 2048 demoText ''whisper'' (Some ''/opt/whisper'')),
    demoWorld\<lparr>files := (files demoWorld)
                 (demoWav \<mapsto> \<lparr>st_size = 320044, utf8 = ''RIFF''\<rparr>, demoSrt := None),
              events := [Exec (ffmpegCmd ''/in/talk.mp3'' demoWav),
                         Exec (whisperCmd demoLocalConfig (Some ''/opt/whisper'') demoWav),
                         Remove demoWav,
                         Warn (cleanupWarning demoWav ''EBUSY: resource busy or locked''),
                         Remove demoSrt]\<rparr>)"
proof -
  have sz: "fileSizeOf demoWorld ''/in/talk.mp3'' = 2048"
    by (simp add: fileSizeOf_def demoWorld_def)
  show ?thesis
    using transcribe_local [OF demo_exists demo_local_check, of _ demoOptions]
    by (simp add: demo_ext demo_attempt demo_cleanup sz)
qed




theorem whisper_path_matches_method_witness:
  "\<exists>r. fst (transcribe demoLocalConfig demoBusy ''/in/talk.mp3'' demoOptions demoWorld) = Inr r
       \<and> method_field (file_info r) = ''whisper''
       \<and> whisper_path (file_info r) = Some ''/opt/whisper''
       \<and> text_field r = demoText"
proof -
  let ?r = "buildResult demoLocalConfig demoBusy demoOptions ''/in/talk.mp3'' 2048 demoText
              ''whisper'' (Some ''/opt/whisper'')"
  have r: "fst (transcribe demoLocalConfig demoBusy ''/in/talk.mp3'' demoOptions demoWorld) = Inr ?r"
    by (simp add: demoBusy_def demo_local_transcribe)
  have m: "method_field (file_info ?r) = ''whisper''" and x: "text_field ?r = demoText"
    by (simp_all add: buildResult_def)
  from whisper_path_matches_method [OF r] m
  have "whisper_path (file_info ?r) =
          path (fst (checkWhisperAvailability demoLocalConfig demoBusy demoWorld))"
    by blast
  then have "whisper_path (file_info ?r) = Some ''/opt/whisper''"
    by (simp add: demo_local_check)
  with r m x show ?thesis by blast
qed

section \<open>The remote probe and the remote fallback\<close>

text \<open>
  Claim C8. Without a key the probe resolves at once to unavailable with the reason
  \<^verbatim>\<open>'No API key provided'\<close> (the code's wording of the missing credential) and the world
  is unchanged, so no request is made. With a key, and an endpoint that parses, exactly
  one \<^verbatim>\<open>HEAD\<close> request is made, with the timeout option 5000 (milliseconds); a response
  with any status code gives available, an \<^verbatim>\<open>error\<close> event gives unavailable with the
  error's message, and the \<^verbatim>\<open>timeout\<close> event gives unavailable with the reason
  \<^verbatim>\<open>'Connection timeout'\<close>.
\<close>

theorem remote_probe_outcomes:
  "(\<not> truthy (webAPIKey cfg) \<longrightarrow>
      checkWebAPIAvailability cfg ex w =
        (Inr \<lparr>web_available = False, web_error = Some ''No API key provided''\<rparr>, w))
   \<and> (truthy (webAPIKey cfg) \<and> url_parse ex (webAPIEndpoint cfg) = Inr u \<longrightarrow>
        timeout (probeOptions u) = 5000
      \<and> newEvents w (snd (checkWebAPIAvailability cfg ex w)) = [HttpsHead (probeOptions u)]
      \<and> (\<forall>status. https_head ex (probeOptions u) = Responded status \<longrightarrow>
             fst (checkWebAPIAvailability cfg ex w) =
               Inr \<lparr>web_available = True, web_error = None\<rparr>)
      \<and> (\<forall>msg. https_head ex (probeOptions u) = SocketError msg \<longrightarrow>
             fst (checkWebAPIAvailability cfg ex w) =
               Inr \<lparr>web_available = False, web_error = Some msg\<rparr>)
      \<and> (https_head ex (probeOptions u) = TimedOut \<longrightarrow>
             fst (checkWebAPIAvailability cfg ex w) =
               Inr \<lparr>web_available = False, web_error = Some ''Connection timeout''\<rparr>))"
  by (auto simp: checkWebAPIAvailability_def probeOptions_def newEvents_def Let_def
           split: head_outcome.splits)

lemma demo_probe_options:
  "probeOptions \<lparr>url_hostname = Some ''api.openai.com'', url_port = None,
                  url_path = Some ''/v1/audio/transcriptions''\<rparr> =
   \<lparr>hostname = Some ''api.openai.com'', port = ''443'',
    urlpath = Some ''/v1/audio/transcriptions'', http_method = ''HEAD'', timeout = 5000\<rparr>"
  by (simp add: probeOptions_def portOr443_def truthy_def)

theorem remote_probe_outcomes_witness:
  "checkWebAPIAvailability demoConfig demoExternals demoWorld =
     (Inr \<lparr>web_available = False, web_error = Some ''No API key provided''\<rparr>, demoWorld)
   \<and> fst (checkWebAPIAvailability demoRemoteConfig demoExternals demoWorld) =
       Inr \<lparr>web_available = True, web_error = None\<rparr>
   \<and> fst (checkWebAPIAvailability demoRemoteConfig
            (demoExternals\<lparr>https_head := (\<lambda>rq. SocketError ''getaddrinfo ENOTFOUND api.openai.com'')\<rparr>)
            demoWorld) =
       Inr \<lparr>web_available = False, web_error = Some ''getaddrinfo ENOTFOUND api.openai.com''\<rparr>
   \<and> fst (checkWebAPIAvailability demoRemoteConfig (demoExternals\<lparr>https_head := (\<lambda>rq. TimedOut)\<rparr>)
            demoWorld) =
       Inr \<lparr>web_available = False, web_error = Some ''Connection timeout''\<rparr>
   \<and> newEvents demoWorld (snd (checkWebAPIAvailability demoRemoteConfig demoExternals demoWorld)) =
       [HttpsHead \<lparr>hostname = Some ''api.openai.com'', port = ''443'',
                   urlpath = Some ''/v1/audio/transcriptions'', http_method = ''HEAD'',
                   timeout = 5000\<rparr>]"
proof -
  let ?u = "\<lparr>url_hostname = Some ''api.openai.com'', url_port = None,
             url_path = Some ''/v1/audio/transcriptions''\<rparr>"
  have nokey: "\<not> truthy (webAPIKey demoConfig)"
    by (simp add: truthy_def demoConfig_def)
  have key: "truthy (webAPIKey demoRemoteConfig)"
    by (simp add: truthy_def demoRemoteConfig_def)
  have url: "url_parse (demoExternals\<lparr>https_head := h\<rparr>) (webAPIEndpoint demoRemoteConfig) = Inr ?u"
            "url_parse demoExternals (webAPIEndpoint demoRemoteConfig) = Inr ?u" for h
    by (simp_all add: demoExternals_def)
  have hd: "https_head demoExternals (probeOptions ?u) = Responded 405"
    by (simp add: demoExternals_def)
  note t = remote_probe_outcomes
  show ?thesis
    using t [of demoConfig demoExternals demoWorld] nokey
          t [of demoRemoteConfig demoExternals demoWorld ?u] key url hd
          t [of demoRemoteConfig "demoExternals\<lparr>https_head := (\<lambda>rq. SocketError ''getaddrinfo ENOTFOUND api.openai.com'')\<rparr>" demoWorld ?u]
          t [of demoRemoteConfig "demoExternals\<lparr>https_head := (\<lambda>rq. TimedOut)\<rparr>" demoWorld ?u]
    unfolding demo_probe_options
    by simp
qed

lemma remote_fallback:
  assumes "existsSync w inputFilePath"
      and "checkWhisperAvailability cfg ex w = (chk, w1)" "\<not> available chk"
      and "useWebAPI cfg" "truthy (webAPIKey cfg)"
      and "checkWebAPIAvailability cfg ex w1 = (Inr pc, w2)" "web_available pc"
      and "transcribeWithWebAPI cfg ex inputFilePath opts w2 = (Inl msg, w3)"
  shows "transcribe cfg ex inputFilePath opts w =
           (Inr (buildResult cfg ex opts inputFilePath (fileSizeOf w inputFilePath)
                   (mockFor ex w inputFilePath) ''web-api'' None),
            w3\<lparr>events := events w3 @ [Warn (''Web API failed, falling back to mock: '' @ msg)]\<rparr>)"
  using assms by (simp add: transcribe_def transcribeBody_def Let_def)

lemma demo_remote_probe:
  "checkWebAPIAvailability demoRemoteConfig demoExternals w =
     (Inr \<lparr>web_available = True, web_error = None\<rparr>,
      w\<lparr>events := events w @
         [HttpsHead \<lparr>hostname = Some ''api.openai.com'', port = ''443'',
                     urlpath = Some ''/v1/audio/transcriptions'', http_method = ''HEAD'',
                     timeout = 5000\<rparr>]\<rparr>)"
  by (simp add: checkWebAPIAvailability_def demoRemoteConfig_def demoConfig_def demoExternals_def
        truthy_def demo_probe_options)

lemma demo_remote_unavailable:
  "checkWhisperAvailability demoRemoteConfig demoExternals demoWorld =
     (\<lparr>available = False, path = None, error = Some ''Command failed: whisper --help''\<rparr>,
      demoWorld\<lparr>events := [Exec ''whisper --help'']\<rparr>)"
  by (simp add: discovery_defs demo_defs demoRemoteConfig_def)

lemma demo_upload:
  "fst (transcribeWithWebAPI demoRemoteConfig demoExternals ''/in/talk.mp3'' demoOptions
          (demoWorld\<lparr>events := es\<rparr>)) = Inl ''API request error: connect ECONNREFUSED''"
  by (simp add: transcribeWithWebAPI_def demoRemoteConfig_def demoConfig_def demoExternals_def
        demoWorld_def Let_def)

text \<open>
  Claim C1, evaluated where it fails. The local executable is not found, the remote mode
  is on with a key, the probe gets a response and the upload fails with a connection
  error. The call returns a result, and its text is the placeholder text, but the
  method it records is \<^verbatim>\<open>'web-api'\<close>, not \<^verbatim>\<open>'mock'\<close>: line 386 sets the method before
  the client is called and the \<^verbatim>\<open>catch\<close> of line 391 does not set it back.
\<close>

theorem remote_failure_keeps_remote_method:
  "\<exists>r. fst (transcribe demoRemoteConfig demoExternals ''/in/talk.mp3'' demoOptions demoWorld) = Inr r
       \<and> method_field (file_info r) = ''web-api''
       \<and> text_field r =
   ''[MOCK TRANSCRIPTION] This is a sample transcription that shows how the output would appear. The text would contain the actual spoken words from your audio file, with proper punctuation and formatting.\<newline>\<newline>File: talk.mp3\<newline>Size: 2.00 KB\<newline>Type: audio/mpeg''"
proof -
  obtain w3 where
    u: "transcribeWithWebAPI demoRemoteConfig demoExternals ''/in/talk.mp3'' demoOptions
          (demoWorld\<lparr>events := [Exec ''whisper --help''] @
             [HttpsHead \<lparr>hostname = Some ''api.openai.com'', port = ''443'',
                         urlpath = Some ''/v1/audio/transcriptions'', http_method = ''HEAD'',
                         timeout = 5000\<rparr>]\<rparr>) =
        (Inl ''API request error: connect ECONNREFUSED'', w3)"
    using demo_upload by (metis prod.collapse)
  have k: "useWebAPI demoRemoteConfig" "truthy (webAPIKey demoRemoteConfig)"
    by (simp_all add: demoRemoteConfig_def truthy_def)
  have p: "checkWebAPIAvailability demoRemoteConfig demoExternals
             (demoWorld\<lparr>events := [Exec ''whisper --help'']\<rparr>) =
           (Inr \<lparr>web_available = True, web_error = None\<rparr>,
            demoWorld\<lparr>events := [Exec ''whisper --help''] @
             [HttpsHead \<lparr>hostname = Some ''api.openai.com'', port = ''443'',
                         urlpath = Some ''/v1/audio/transcriptions'', http_method = ''HEAD'',
                         timeout = 5000\<rparr>]\<rparr>)"
    by (simp add: demo_remote_probe)
  show ?thesis
    using remote_fallback [OF demo_exists demo_remote_unavailable _ k p _ u]
    by (simp add: buildResult_def mockFor_def demo_mock_text)
qed

text \<open>
  Claim C7, evaluated where it fails. The environment has no \<^verbatim>\<open>HOME\<close> and no executable
  path is configured. Building the list of well-known paths throws, the \<^verbatim>\<open>catch\<close> of
  line 58 reports unavailable with the \<^verbatim>\<open>TypeError\<close>'s message, and nothing more is
  tried: the \<^verbatim>\<open>whisper\<close> command, which would run, is not started (the trace is
  unchanged), and the first well-known path, which needs no \<^verbatim>\<open>HOME\<close>, is not found when
  it exists.
\<close>

theorem discovery_without_home:
  "checkWhisperAvailability demoConfig demoNoHome demoWorld =
     (\<lparr>available = False, path = None, error = Some pathArgumentError\<rparr>, demoWorld)
   \<and> fst (execAsync demoNoHome ''whisper --help'' (files demoWorld)) = None
   \<and> checkWhisperAvailability demoConfig demoNoHome
       (demoWorld\<lparr>files := (files demoWorld)
          (''/Users/kasperjones/venvs/whisper310-py10/bin/whisper'' \<mapsto> \<lparr>st_size = 512, utf8 = ''#!''\<rparr>)\<rparr>) =
     (\<lparr>available = False, path = None, error = Some pathArgumentError\<rparr>,
      demoWorld\<lparr>files := (files demoWorld)
          (''/Users/kasperjones/venvs/whisper310-py10/bin/whisper'' \<mapsto> \<lparr>st_size = 512, utf8 = ''#!''\<rparr>)\<rparr>)"
  by (simp add: checkWhisperAvailability_def customPathFound_def commonPaths_def demoNoHome_def
        demoExternals_def demoConfig_def)

section \<open>Discovery in priority order, and the soft remote failure\<close>

text \<open>
  Discovery when the list of well-known paths can be built (the environment has a
  \<^verbatim>\<open>HOME\<close>): a configured path that exists is returned and the world is unchanged;
  otherwise the first well-known path that exists is returned and the world is unchanged;
  otherwise \<^verbatim>\<open>whisper --help\<close> is run exactly once, and the result is the bare command
  name when it succeeds and unavailable with the command's error message when it fails.
\<close>

theorem discovery_priority:
  assumes "commonPaths ex = Inr paths"
  shows "(customPathFound cfg w \<longrightarrow>
            checkWhisperAvailability cfg ex w =
              (\<lparr>available = True, path = whisperPath cfg, error = None\<rparr>, w))
       \<and> (\<not> customPathFound cfg w \<longrightarrow>
            (\<forall>p. find (existsSync w) paths = Some p \<longrightarrow>
               checkWhisperAvailability cfg ex w =
                 (\<lparr>available = True, path = Some p, error = None\<rparr>, w))
          \<and> (find (existsSync w) paths = None \<longrightarrow>
               newEvents w (snd (checkWhisperAvailability cfg ex w)) = [Exec ''whisper --help'']
             \<and> (fst (execAsync ex ''whisper --help'' (files w)) = None \<longrightarrow>
                  fst (checkWhisperAvailability cfg ex w) =
                    \<lparr>available = True, path = Some ''whisper'', error = None\<rparr>)
             \<and> (\<forall>msg. fst (execAsync ex ''whisper --help'' (files w)) = Some msg \<longrightarrow>
                  fst (checkWhisperAvailability cfg ex w) =
                    \<lparr>available = False, path = None, error = Some msg\<rparr>)))"
  using assms
  by (auto simp: checkWhisperAvailability_def runCommand_def newEvents_def Let_def
           split: prod.splits option.splits)

theorem discovery_priority_witness:
  "checkWhisperAvailability demoLocalConfig demoExternals demoWorld =
     (\<lparr>available = True, path = Some ''/opt/whisper'', error = None\<rparr>, demoWorld)
   \<and> fst (checkWhisperAvailability demoConfig demoExternals
            (demoWorld\<lparr>files := (files demoWorld)
               (''/home/ada/.virtualenvs/whisper/bin/whisper'' \<mapsto> \<lparr>st_size = 512, utf8 = ''#!''\<rparr>)\<rparr>)) =
       \<lparr>available = True, path = Some ''/home/ada/.virtualenvs/whisper/bin/whisper'', error = None\<rparr>
   \<and> fst (checkWhisperAvailability demoConfig (demoExternals\<lparr>execAsync := (\<lambda>cmd fs. (None, fs))\<rparr>)
            demoWorld) =
       \<lparr>available = True, path = Some ''whisper'', error = None\<rparr>
   \<and> fst (checkWhisperAvailability demoConfig demoExternals demoWorld) =
       \<lparr>available = False, path = None, error = Some ''Command failed: whisper --help''\<rparr>
   \<and> newEvents demoWorld (snd (checkWhisperAvailability demoConfig demoExternals demoWorld)) =
       [Exec ''whisper --help'']"
proof -
  let ?paths = "[''/Users/kasperjones/venvs/whisper310-py10/bin/whisper'',
                 ''/home/ada/venvs/whisper310-py10/bin/whisper'',
                 ''/home/ada/.virtualenvs/whisper/bin/whisper'',
                 ''/home/ada/anaconda3/envs/whisper/bin/whisper'',
                 ''/home/ada/miniconda3/envs/whisper/bin/whisper'']"
  let ?w = "demoWorld\<lparr>files := (files demoWorld)
               (''/home/ada/.virtualenvs/whisper/bin/whisper'' \<mapsto> \<lparr>st_size = 512, utf8 = ''#!''\<rparr>)\<rparr>"
  let ?on = "demoExternals\<lparr>execAsync := (\<lambda>cmd fs. (None, fs))\<rparr>"
  have cp: "commonPaths demoExternals = Inr ?paths" "commonPaths ?on = Inr ?paths"
    by (simp_all add: commonPaths_def demoExternals_def)
  have c1: "customPathFound demoLocalConfig demoWorld"
    by (simp add: customPathFound_def existsSync_def demoLocalConfig_def demoConfig_def demoWorld_def)
  have c0: "\<not> customPathFound demoConfig v" for v
    by (simp add: customPathFound_def demoConfig_def)
  have f1: "find (existsSync ?w) ?paths = Some ''/home/ada/.virtualenvs/whisper/bin/whisper''"
    by (simp add: existsSync_def demoWorld_def)
  have f0: "find (existsSync demoWorld) ?paths = None"
    by (simp add: existsSync_def demoWorld_def)
  have x1: "fst (execAsync ?on ''whisper --help'' (files demoWorld)) = None"
    by simp
  have x0: "fst (execAsync demoExternals ''whisper --help'' (files demoWorld)) =
              Some ''Command failed: whisper --help''"
    by (simp add: demoExternals_def)
  have p: "whisperPath demoLocalConfig = Some ''/opt/whisper''"
    by (simp add: demoLocalConfig_def)
  note t = discovery_priority
  show ?thesis
    using t [OF cp(1), of demoLocalConfig demoWorld] c1 p
          t [OF cp(1), of demoConfig ?w] c0 f1
          t [OF cp(2), of demoConfig demoWorld] f0 x1
          t [OF cp(1), of demoConfig demoWorld] x0
    by simp
qed

text \<open>
  A failure of the remote client is soft: when the local executable is unavailable, the
  remote mode is on with a key, the probe reports available and the client fails with a
  message, \<open>transcribe\<close> returns a result whose text is the placeholder text, and the
  warning with the client's message is written during the call.
\<close>

theorem remote_failure_is_soft:
  assumes "existsSync w inputFilePath"
      and "\<not> available (fst (checkWhisperAvailability cfg ex w))"
      and "useWebAPI cfg" "truthy (webAPIKey cfg)"
      and "fst (checkWebAPIAvailability cfg ex (snd (checkWhisperAvailability cfg ex w))) = Inr pc"
      and "web_available pc"
      and "fst (transcribeWithWebAPI cfg ex inputFilePath opts
                 (snd (checkWebAPIAvailability cfg ex (snd (checkWhisperAvailability cfg ex w))))) =
           Inl msg"
  shows "\<exists>r. fst (transcribe cfg ex inputFilePath opts w) = Inr r
           \<and> text_field r =
               generateMockTranscription ex (path_basename ex inputFilePath)
                 (fileSizeOf w inputFilePath) (contentTypeOf (fileExtOf ex inputFilePath))
           \<and> Warn (''Web API failed, falling back to mock: '' @ msg)
               \<in> set (newEvents w (snd (transcribe cfg ex inputFilePath opts w)))"
proof -
  obtain chk w1 where c: "checkWhisperAvailability cfg ex w = (chk, w1)"
    by (cases "checkWhisperAvailability cfg ex w")
  obtain w2 where p: "checkWebAPIAvailability cfg ex w1 = (Inr pc, w2)"
    using assms(5) c by (cases "checkWebAPIAvailability cfg ex w1") simp
  obtain w3 where u: "transcribeWithWebAPI cfg ex inputFilePath opts w2 = (Inl msg, w3)"
    using assms(7) c p by (cases "transcribeWithWebAPI cfg ex inputFilePath opts w2") simp
  have nav: "\<not> available chk" using assms(2) c by simp
  note t = remote_fallback [OF assms(1) c nav assms(3,4) p assms(6) u]
  have "extendsBy isExec w w1" using check_extends [of w cfg ex] c by simp
  moreover have "extendsBy isNetwork w1 w2" using probe_extends [of w1 cfg ex] p by simp
  moreover have "extendsBy isNetwork w2 w3"
    using client_extends [of w2 cfg ex inputFilePath opts] u by simp
  ultimately obtain xs where "events w3 = events w @ xs"
    by (auto simp: extendsBy_def)
  then have "Warn (''Web API failed, falling back to mock: '' @ msg)
               \<in> set (newEvents w (snd (transcribe cfg ex inputFilePath opts w)))"
    by (simp add: t newEvents_def)
  then show ?thesis by (simp add: t buildResult_def mockFor_def)
qed

theorem remote_failure_is_soft_witness:
  "\<exists>r. fst (transcribe demoRemoteConfig demoExternals ''/in/talk.mp3'' demoOptions demoWorld) = Inr r
       \<and> text_field r =
           generateMockTranscription demoExternals (path_basename demoExternals ''/in/talk.mp3'')
             (fileSizeOf demoWorld ''/in/talk.mp3'')
             (contentTypeOf (fileExtOf demoExternals ''/in/talk.mp3''))
       \<and> Warn ''Web API failed, falling back to mock: API request error: connect ECONNREFUSED''
           \<in> set (newEvents demoWorld
                (snd (transcribe demoRemoteConfig demoExternals ''/in/talk.mp3'' demoOptions demoWorld)))"
proof -
  have a: "\<not> available (fst (checkWhisperAvailability demoRemoteConfig demoExternals demoWorld))"
    by (simp add: demo_remote_unavailable)
  have k: "useWebAPI demoRemoteConfig" "truthy (webAPIKey demoRemoteConfig)"
    by (simp_all add: demoRemoteConfig_def truthy_def)
  have p: "fst (checkWebAPIAvailability demoRemoteConfig demoExternals
                 (snd (checkWhisperAvailability demoRemoteConfig demoExternals demoWorld))) =
           Inr \<lparr>web_available = True, web_error = None\<rparr>"
    by (simp add: demo_remote_probe)
  have u: "fst (transcribeWithWebAPI demoRemoteConfig demoExternals ''/in/talk.mp3'' demoOptions
                 (snd (checkWebAPIAvailability demoRemoteConfig demoExternals
                        (snd (checkWhisperAvailability demoRemoteConfig demoExternals demoWorld))))) =
           Inl ''API request error: connect ECONNREFUSED''"
    by (simp add: demo_remote_unavailable demo_remote_probe demo_upload)
  from remote_failure_is_soft [OF demo_exists a k p _ u] show ?thesis by simp
qed

end
